theory Spec2Isabelle
  imports Main "HOL-Library.AList"
begin

section \<open>A shallow embedding of the GraphQL client (graphql.go)\<close>

text \<open>
  The client builds one HTTP POST per call to \<open>Run\<close>, in one of three encodings, hands it
  to the HTTP transport, and decodes the response envelope. The embedding keeps the
  functions and field names of the source. Effects are explicit: \<open>Run\<close> takes the request
  and the caller's result target and returns both, together with what it returned and the
  list of HTTP requests it handed to the transport.

  The log sink \<open>Client.Log\<close> only receives formatted text and never influences what
  \<open>Run\<close> does or returns; it is left out.
\<close>

subsection \<open>strconv.Itoa and strings.Join\<close>

type_synonym bytes = string

function utoa :: "nat \<Rightarrow> string" where
  "utoa n = (if n < 10 then [''0123456789'' ! n]
             else utoa (n div 10) @ [''0123456789'' ! (n mod 10)])"
  by pat_completeness auto
termination
  by (relation "measure id") auto

declare utoa.simps [simp del]

definition Itoa :: "int \<Rightarrow> string" where
  "Itoa i = (if i < 0 then CHR ''-'' # utoa (nat (- i)) else utoa (nat i))"

fun Join :: "string list \<Rightarrow> string \<Rightarrow> string" where
  "Join [] sep = []"
| "Join [a] sep = a"
| "Join (a # b # elems) sep = a @ sep @ Join (b # elems) sep"

subsection \<open>Error and Errors\<close>

text \<open>
  \<open>'v\<close> stands for Go's \<open>interface{}\<close>: the values of variables, and the path segments and
  extensions of a decoded GraphQL error.
\<close>

record 'v Error =
  Message :: string
  Locations :: "(int \<times> int) list"
  Path :: "'v list"
  Extensions :: "(string \<times> 'v) list"

type_synonym 'v Errors = "'v Error list"

definition Error_Error :: "'v Error \<Rightarrow> string" where
  "Error_Error e = ''graphql: '' @ Message e"

text \<open>
  The loop of \<open>Errors.Error\<close>: \<open>result\<close> is made with \<open>len(l)\<close> empty strings and
  \<open>result[i] = e.Message\<close> is stored for each index \<open>i\<close> of the range.
\<close>

fun collect_messages :: "nat \<Rightarrow> 'v Errors \<Rightarrow> string list \<Rightarrow> string list" where
  "collect_messages i [] result = result"
| "collect_messages i (e # es) result = collect_messages (Suc i) es (result[i := Message e])"

definition Errors_Error :: "'v Errors \<Rightarrow> string" where
  "Errors_Error l =
     (if length l = 0 then ''no error''
      else (let result = collect_messages 0 l (replicate (length l) [])
            in ''graphql: '' @ Join result '' | ''))"

text \<open>
  The error values \<open>Run\<close> can return. \<open>External\<close> is an error produced outside this
  package (the context, the transport, a file reader, encoding/json, net/url), known by
  its text only.
\<close>

datatype 'v error =
    New string
  | Wrap "'v error" string
  | Errorf string
  | External string
  | GraphQLErrors "'v Errors"

fun error_text :: "'v error \<Rightarrow> string" where
  "error_text (New msg) = msg"
| "error_text (Wrap err msg) = msg @ '': '' @ error_text err"
| "error_text (Errorf msg) = msg"
| "error_text (External msg) = msg"
| "error_text (GraphQLErrors l) = Errors_Error l"

subsection \<open>Standard-library collaborators\<close>

text \<open>
  The client calls net/http, net/textproto, mime/multipart, io and encoding/json. What the
  client needs from them is modelled here: header keys and values, the multipart writer
  over an in-memory buffer, and readers. encoding/json, the random multipart boundary, URL
  parsing and the HTTP transport are parameters (\<open>env\<close> and \<open>httpClient\<close> below).
\<close>

paragraph \<open>net/textproto: canonical header keys; http.Header\<close>

definition validHeaderFieldByte :: "char \<Rightarrow> bool" where
  "validHeaderFieldByte c =
     (let n = (of_char c :: nat)
      in (48 \<le> n \<and> n \<le> 57) \<or> (65 \<le> n \<and> n \<le> 90) \<or> (97 \<le> n \<and> n \<le> 122)
         \<or> n \<in> {33, 35, 36, 37, 38, 39, 42, 43, 45, 46, 94, 95, 96, 124, 126})"

definition canonical_byte :: "bool \<Rightarrow> char \<Rightarrow> char" where
  "canonical_byte upper c =
     (let n = (of_char c :: nat)
      in if upper \<and> 97 \<le> n \<and> n \<le> 122 then char_of (n - 32)
         else if \<not> upper \<and> 65 \<le> n \<and> n \<le> 90 then char_of (n + 32)
         else c)"

fun canonical_loop :: "bool \<Rightarrow> string \<Rightarrow> string" where
  "canonical_loop upper [] = []"
| "canonical_loop upper (c # cs) =
     (let c' = canonical_byte upper c in c' # canonical_loop (c' = CHR ''-'') cs)"

definition CanonicalMIMEHeaderKey :: "string \<Rightarrow> string" where
  "CanonicalMIMEHeaderKey s =
     (if list_all validHeaderFieldByte s then canonical_loop True s else s)"

type_synonym Header = "string \<rightharpoonup> string list"

definition Header_Set :: "string \<Rightarrow> string \<Rightarrow> Header \<Rightarrow> Header" where
  "Header_Set key val h = h(CanonicalMIMEHeaderKey key \<mapsto> [val])"

definition Header_Add :: "string \<Rightarrow> string \<Rightarrow> Header \<Rightarrow> Header" where
  "Header_Add key val h =
     (let k = CanonicalMIMEHeaderKey key
      in h(k \<mapsto> (case h k of None \<Rightarrow> [] | Some vs \<Rightarrow> vs) @ [val]))"

paragraph \<open>io.Reader and mime/multipart over a bytes.Buffer\<close>

text \<open>
  A reader is known by what reading it to the end gives: its bytes, or an error.
\<close>

datatype Reader = Content bytes | Failing string

datatype part = FormField string bytes | FormFile string string bytes

text \<open>
  A buffer holds plain bytes, or the multipart form (its boundary and its parts, in the
  order written) that a closed multipart writer left in it. The zero buffer is
  \<open>Bytes []\<close>.
\<close>

datatype buffer = Bytes bytes | MultipartForm string "part list"

record Writer =
  boundary :: string
  parts :: "part list"

definition multipart_NewWriter :: "string \<Rightarrow> Writer" where
  "multipart_NewWriter b = \<lparr>boundary = b, parts = []\<rparr>"

fun part_append :: "bytes \<Rightarrow> part \<Rightarrow> part" where
  "part_append d (FormField name v) = FormField name (v @ d)"
| "part_append d (FormFile field name v) = FormFile field name (v @ d)"

text \<open>
  Writing to the part created last. Writes to a bytes.Buffer do not fail. A part keeps
  the field name, the file name and the bytes as the client gave them; how mime/multipart
  escapes the names on the wire is not modelled.
\<close>

definition part_Write :: "bytes \<Rightarrow> Writer \<Rightarrow> Writer" where
  "part_Write d w =
     (case rev (parts w) of
        [] \<Rightarrow> w
      | p # ps \<Rightarrow> w\<lparr>parts := rev ps @ [part_append d p]\<rparr>)"

definition Writer_CreateFormField :: "string \<Rightarrow> Writer \<Rightarrow> string + Writer" where
  "Writer_CreateFormField fieldname w = Inr (w\<lparr>parts := parts w @ [FormField fieldname []]\<rparr>)"

definition Writer_CreateFormFile :: "string \<Rightarrow> string \<Rightarrow> Writer \<Rightarrow> string + Writer" where
  "Writer_CreateFormFile fieldname filename w =
     Inr (w\<lparr>parts := parts w @ [FormFile fieldname filename []]\<rparr>)"

definition Writer_WriteField :: "string \<Rightarrow> string \<Rightarrow> Writer \<Rightarrow> string + Writer" where
  "Writer_WriteField fieldname val w =
     (case Writer_CreateFormField fieldname w of
        Inl err \<Rightarrow> Inl err
      | Inr w' \<Rightarrow> Inr (part_Write val w'))"

definition Writer_Close :: "Writer \<Rightarrow> string + buffer" where
  "Writer_Close w = Inr (MultipartForm (boundary w) (parts w))"

definition Writer_FormDataContentType :: "Writer \<Rightarrow> string" where
  "Writer_FormDataContentType w =
     (let b = boundary w;
          b' = (if list_ex (\<lambda>c. c \<in> set (''()<>@,;:/[]?= '' @ [char_of (34 :: nat), char_of (92 :: nat)])) b
                then [char_of (34 :: nat)] @ b @ [char_of (34 :: nat)] else b)
      in ''multipart/form-data; boundary='' @ b')"

definition io_Copy :: "Reader \<Rightarrow> Writer \<Rightarrow> string + Writer" where
  "io_Copy src w = (case src of Content d \<Rightarrow> Inr (part_Write d w) | Failing msg \<Rightarrow> Inl msg)"

paragraph \<open>net/http: requests and responses\<close>

text \<open>
  The outgoing \<open>http.Request\<close>; its header map is the field \<open>Headers\<close> here, the field
  \<open>Header\<close> being the one of the GraphQL request below. A response is its status code and
  what reading its body to the end gives.
\<close>

record http_Request =
  Method :: string
  URL :: string
  Close :: bool
  Headers :: Header
  Body :: buffer

record Response =
  StatusCode :: int
  ResBody :: "string + bytes"

paragraph \<open>encoding/json\<close>

text \<open>
  The Go values the client hands to the JSON encoder: strings, nil, a value of a
  variable, slices, maps with string keys, and structs as their JSON field names with
  the field values.
\<close>

datatype 'v gval =
    GNil
  | GString string
  | GAny 'v
  | GSlice "'v gval list"
  | GMap "(string \<times> 'v gval) list"
  | GStruct "(string \<times> 'v gval) list"

text \<open>
  What \<open>Decode(&gr)\<close> did, for a body and the caller's target behind \<open>gr.Data\<close>: the
  error it returned, the target afterwards, and \<open>gr.Errors\<close> afterwards. \<open>gr\<close> is itself
  a pointer, and encoding/json sets a pointer to nil when the JSON text is \<open>null\<close>:
  \<open>gr_Errors\<close> is \<open>None\<close> when \<open>gr\<close> is nil after the call.
\<close>

record ('v, 'r) decoded =
  decode_err :: "string option"
  gr_Data :: 'r
  gr_Errors :: "'v Errors option"

record ('v, 'r) env =
  json_Marshal :: "'v gval \<Rightarrow> string + bytes"
  json_Decode :: "bytes \<Rightarrow> 'r \<Rightarrow> ('v, 'r) decoded"
  randomBoundary :: string
  url_Parse :: "string \<Rightarrow> string option"

text \<open>\<open>Encoder.Encode\<close> writes the JSON text followed by a newline.\<close>

definition json_Encode :: "('v, 'r) env \<Rightarrow> 'v gval \<Rightarrow> string + bytes" where
  "json_Encode E v = (case json_Marshal E v of Inl err \<Rightarrow> Inl err | Inr js \<Rightarrow> Inr (js @ [char_of (10 :: nat)]))"

text \<open>\<open>http.NewRequest\<close> with method POST: it fails when the URL does not parse.\<close>

definition http_NewRequest :: "('v, 'r) env \<Rightarrow> string \<Rightarrow> buffer \<Rightarrow> string + http_Request" where
  "http_NewRequest E url b =
     (case url_Parse E url of
        Some err \<Rightarrow> Inl err
      | None \<Rightarrow> Inr \<lparr>Method = ''POST'', URL = url, Close = False, Headers = Map.empty, Body = b\<rparr>)"

subsection \<open>Request, File and Client\<close>

record File =
  Field :: string
  Name :: string
  R :: Reader

text \<open>
  \<open>vars\<close> is a Go map: \<open>None\<close> is the nil map, and a map is an association list with
  distinct keys. \<open>Header\<close> is a Go map as well; the order of its list is the order in
  which \<open>range\<close> visits the keys.
\<close>

record 'v Request =
  q :: string
  vars :: "(string \<times> 'v) list option"
  files :: "File list"
  Header :: "(string \<times> string list) list"
  body :: buffer
  contentType :: string

definition NewRequest :: "string \<Rightarrow> 'v Request" where
  "NewRequest s = \<lparr>q = s, vars = None, files = [], Header = [], body = Bytes [], contentType = []\<rparr>"

definition Request_Var :: "string \<Rightarrow> 'v \<Rightarrow> 'v Request \<Rightarrow> 'v Request" where
  "Request_Var key val req =
     (let m = (case vars req of None \<Rightarrow> [] | Some m \<Rightarrow> m)
      in req\<lparr>vars := Some (AList.update key val m)\<rparr>)"

definition Request_Vars :: "'v Request \<Rightarrow> (string \<times> 'v) list option" where
  "Request_Vars req = vars req"

definition Request_Files :: "'v Request \<Rightarrow> File list" where
  "Request_Files req = files req"

definition Request_Query :: "'v Request \<Rightarrow> string" where
  "Request_Query req = q req"

definition Request_File :: "string \<Rightarrow> string \<Rightarrow> Reader \<Rightarrow> 'v Request \<Rightarrow> 'v Request" where
  "Request_File fieldname filename r req =
     req\<lparr>files := files req @ [\<lparr>Field = fieldname, Name = filename, R = r\<rparr>]\<rparr>"

definition len_vars :: "'v Request \<Rightarrow> nat" where
  "len_vars req = (case vars req of None \<Rightarrow> 0 | Some m \<Rightarrow> length m)"

text \<open>
  The HTTP transport is a field of the client: given the outgoing request it returns an
  error or a response.
\<close>

record Client =
  endpoint :: string
  httpClient :: "http_Request \<Rightarrow> string + Response"
  useMultipartForm :: bool
  useMultipartRequestSpec :: bool
  closeReq :: bool

datatype ClientOption =
    WithHTTPClient "http_Request \<Rightarrow> string + Response"
  | UseMultipartForm
  | UseMultipartRequestSpec
  | ImmediatelyCloseReqBody

fun apply_option :: "ClientOption \<Rightarrow> Client \<Rightarrow> Client" where
  "apply_option (WithHTTPClient h) c = c\<lparr>httpClient := h\<rparr>"
| "apply_option UseMultipartForm c = c\<lparr>useMultipartForm := True\<rparr>"
| "apply_option UseMultipartRequestSpec c = c\<lparr>useMultipartRequestSpec := True\<rparr>"
| "apply_option ImmediatelyCloseReqBody c = c\<lparr>closeReq := True\<rparr>"

text \<open>\<open>NewClient\<close>, given the transport \<open>http.DefaultClient\<close>.\<close>

definition NewClient :: "(http_Request \<Rightarrow> string + Response) \<Rightarrow> string \<Rightarrow> ClientOption list \<Rightarrow> Client" where
  "NewClient DefaultClient url opts =
     fold apply_option opts
       \<lparr>endpoint = url, httpClient = DefaultClient, useMultipartForm = False,
        useMultipartRequestSpec = False, closeReq = False\<rparr>"

subsection \<open>fillMultipartRequestSpecQuery\<close>

text \<open>
  The three local struct types of the function; a nil \<open>interface{}\<close> is \<open>None\<close>. The
  field \<open>Map\<close> is a Go map; assigning to a key is \<open>AList.update\<close>.
\<close>

datatype 'v variables =
    emptyVariables
  | fileVariables "'v option"
  | filesVariables "'v option list"

record 'v operations =
  Query :: string
  Variables :: "'v variables"

record 'v multipartRequestSpecQuery =
  Operations :: "'v operations"
  Map :: "(string \<times> string list) list"

fun fill_files ::
  "int \<Rightarrow> File list \<Rightarrow> 'v option list \<times> (string \<times> string list) list
     \<Rightarrow> 'v option list \<times> (string \<times> string list) list" where
  "fill_files index [] (fs, m) = (fs, m)"
| "fill_files index (file # rest) (fs, m) =
     fill_files (index + 1) rest
       (fs @ [None], AList.update (Field file) [''variables.files.'' @ Itoa index] m)"

definition fillMultipartRequestSpecQuery :: "'v Request \<Rightarrow> 'v multipartRequestSpecQuery" where
  "fillMultipartRequestSpecQuery req =
     (let c = int (length (Request_Files req));
          no_files = \<lparr>Operations = \<lparr>Query = Request_Query req, Variables = emptyVariables\<rparr>, Map = []\<rparr>
      in if c = 0 then no_files
         else if c = 1 then
           \<lparr>Operations = \<lparr>Query = Request_Query req, Variables = fileVariables None\<rparr>,
            Map = AList.update (Field (Request_Files req ! 0)) [''variables.file''] []\<rparr>
         else if c > 0 then
           (case fill_files 0 (Request_Files req) ([], []) of
              (fs, m) \<Rightarrow>
                \<lparr>Operations = \<lparr>Query = Request_Query req, Variables = filesVariables fs\<rparr>, Map = m\<rparr>)
         else no_files)"

subsection \<open>The values handed to the JSON encoder\<close>

definition opt_gval :: "'v option \<Rightarrow> 'v gval" where
  "opt_gval x = (case x of None \<Rightarrow> GNil | Some v \<Rightarrow> GAny v)"

definition vars_gval :: "(string \<times> 'v) list option \<Rightarrow> 'v gval" where
  "vars_gval vs = (case vs of None \<Rightarrow> GNil | Some m \<Rightarrow> GMap (map (\<lambda>(k, v). (k, GAny v)) m))"

definition operations_gval :: "'v operations \<Rightarrow> 'v gval" where
  "operations_gval ops =
     GStruct [(''query'', GString (Query ops)),
              (''variables'',
               (case Variables ops of
                  emptyVariables \<Rightarrow> GStruct []
                | fileVariables f \<Rightarrow> GStruct [(''file'', opt_gval f)]
                | filesVariables fs \<Rightarrow> GStruct [(''files'', GSlice (map opt_gval fs))]))]"

definition map_gval :: "(string \<times> string list) list \<Rightarrow> 'v gval" where
  "map_gval m = GMap (map (\<lambda>(k, paths). (k, GSlice (map GString paths))) m)"

subsection \<open>Run and the three strategies\<close>

text \<open>
  The context is live, or its \<open>Done\<close> channel is closed and \<open>ctx.Err()\<close> has the given
  text. What a call did: it returned an error or nil, or it panicked; the request and
  the caller's target afterwards; and the HTTP requests given to the transport.
\<close>

datatype Context = Live | Done string

datatype 'v outcome = Returns "'v error option" | Panics

record ('v, 'r) result =
  outcome :: "'v outcome"
  req_after :: "'v Request"
  resp_after :: 'r
  sent :: "http_Request list"

fun add_values :: "string \<Rightarrow> string list \<Rightarrow> Header \<Rightarrow> Header" where
  "add_values key [] h = h"
| "add_values key (val # vals) h = add_values key vals (Header_Add key val h)"

fun add_headers :: "(string \<times> string list) list \<Rightarrow> Header \<Rightarrow> Header" where
  "add_headers [] h = h"
| "add_headers ((key, vals) # rest) h = add_headers rest (add_values key vals h)"

text \<open>
  Lines 125 to 154 of \<open>runWithJSON\<close> and lines 262 to 291 of \<open>makeRequest\<close> are the same
  statements, but for the value of the Content-Type header. \<open>set_headers\<close> is the first
  part (lines 125 to 132, 262 to 269); \<open>exchange\<close> is the whole: the headers are set, the
  request is given to the transport, the body is read and decoded. After a decoding
  without error, \<open>len(gr.Errors)\<close> dereferences \<open>gr\<close>, which panics when \<open>gr\<close> is nil.
\<close>

definition set_headers :: "Client \<Rightarrow> string \<Rightarrow> 'v Request \<Rightarrow> http_Request \<Rightarrow> http_Request" where
  "set_headers c ctype req r0 =
     (let r1 = r0\<lparr>Close := closeReq c\<rparr>;
          r2 = r1\<lparr>Headers := Header_Set ''Content-Type'' ctype (Headers r1)\<rparr>;
          r3 = r2\<lparr>Headers := Header_Set ''Accept'' ''application/json; charset=utf-8'' (Headers r2)\<rparr>
      in r3\<lparr>Headers := add_headers (Header req) (Headers r3)\<rparr>)"

definition exchange ::
  "('v, 'r) env \<Rightarrow> Client \<Rightarrow> string \<Rightarrow> http_Request \<Rightarrow> 'v Request \<Rightarrow> 'r \<Rightarrow> ('v, 'r) result" where
  "exchange E c ctype r0 req resp =
     (let r = set_headers c ctype req r0
      in case httpClient c r of
           Inl err \<Rightarrow>
             \<lparr>outcome = Returns (Some (External err)), req_after = req, resp_after = resp, sent = [r]\<rparr>
         | Inr res \<Rightarrow>
             (case ResBody res of
                Inl err \<Rightarrow>
                  \<lparr>outcome = Returns (Some (Wrap (External err) ''reading body'')),
                   req_after = req, resp_after = resp, sent = [r]\<rparr>
              | Inr buf \<Rightarrow>
                  (let d = json_Decode E buf resp
                   in case decode_err d of
                        Some err \<Rightarrow>
                          \<lparr>outcome = Returns (Some
                             (if StatusCode res \<noteq> 200
                              then Errorf (''graphql: server returned a non-200 status code: ''
                                           @ Itoa (StatusCode res))
                              else Wrap (External err) ''decoding response'')),
                           req_after = req, resp_after = gr_Data d, sent = [r]\<rparr>
                      | None \<Rightarrow>
                          (case gr_Errors d of
                             None \<Rightarrow>
                               \<lparr>outcome = Panics, req_after = req, resp_after = gr_Data d, sent = [r]\<rparr>
                           | Some errs \<Rightarrow>
                               \<lparr>outcome = Returns (if length errs > 0 then Some (GraphQLErrors errs) else None),
                                req_after = req, resp_after = gr_Data d, sent = [r]\<rparr>))))"

definition failed :: "'v error \<Rightarrow> 'v Request \<Rightarrow> 'r \<Rightarrow> ('v, 'r) result" where
  "failed err req resp = \<lparr>outcome = Returns (Some err), req_after = req, resp_after = resp, sent = []\<rparr>"

definition runWithJSON :: "('v, 'r) env \<Rightarrow> Client \<Rightarrow> 'v Request \<Rightarrow> 'r \<Rightarrow> ('v, 'r) result" where
  "runWithJSON E c req resp =
     (let requestBodyObj = GStruct [(''query'', GString (q req)), (''variables'', vars_gval (vars req))]
      in case json_Encode E requestBodyObj of
           Inl err \<Rightarrow> failed (Wrap (External err) ''encode body'') req resp
         | Inr requestBody \<Rightarrow>
             (case http_NewRequest E (endpoint c) (Bytes requestBody) of
                Inl err \<Rightarrow> failed (External err) req resp
              | Inr r \<Rightarrow> exchange E c ''application/json; charset=utf-8'' r req resp))"

text \<open>
  \<open>makeRequest\<close> gives the transport the staged buffer by the pointer \<open>&req.body\<close>. The
  transport may read it, which drains it; how much is left is the transport's doing and
  is not modelled: \<open>req_after\<close> keeps the staged content in \<open>body\<close>.
\<close>

definition makeRequest :: "('v, 'r) env \<Rightarrow> Client \<Rightarrow> 'v Request \<Rightarrow> 'r \<Rightarrow> ('v, 'r) result" where
  "makeRequest E c req resp =
     (case http_NewRequest E (endpoint c) (body req) of
        Inl err \<Rightarrow> failed (External err) req resp
      | Inr r \<Rightarrow> exchange E c (contentType req) r req resp)"

fun write_files :: "File list \<Rightarrow> Writer \<Rightarrow> 'v error + Writer" where
  "write_files [] w = Inr w"
| "write_files (f # fs) w =
     (case Writer_CreateFormFile (Field f) (Name f) w of
        Inl err \<Rightarrow> Inl (Wrap (External err) ''create form file'')
      | Inr w1 \<Rightarrow>
          (case io_Copy (R f) w1 of
             Inl err \<Rightarrow> Inl (Wrap (External err) ''preparing file'')
           | Inr w2 \<Rightarrow> write_files fs w2))"

definition write_variables :: "('v, 'r) env \<Rightarrow> 'v Request \<Rightarrow> Writer \<Rightarrow> 'v error + Writer" where
  "write_variables E req w =
     (if len_vars req > 0 then
        (case Writer_CreateFormField ''variables'' w of
           Inl err \<Rightarrow> Inl (Wrap (External err) ''create variables field'')
         | Inr w1 \<Rightarrow>
             (case json_Encode E (vars_gval (vars req)) of
                Inl err \<Rightarrow> Inl (Wrap (External err) ''encode variables'')
              | Inr js \<Rightarrow> Inr (part_Write js w1)))
      else Inr w)"

definition runWithPostFields :: "('v, 'r) env \<Rightarrow> Client \<Rightarrow> 'v Request \<Rightarrow> 'r \<Rightarrow> ('v, 'r) result" where
  "runWithPostFields E c req resp =
     (case Writer_WriteField ''query'' (q req) (multipart_NewWriter (randomBoundary E)) of
        Inl err \<Rightarrow> failed (Wrap (External err) ''write query field'') req resp
      | Inr w1 \<Rightarrow>
     (case write_variables E req w1 of
        Inl err \<Rightarrow> failed err req resp
      | Inr w2 \<Rightarrow>
     (case write_files (files req) w2 of
        Inl err \<Rightarrow> failed err req resp
      | Inr w3 \<Rightarrow>
     (case Writer_Close w3 of
        Inl err \<Rightarrow> failed (Wrap (External err) ''close writer'') req resp
      | Inr requestBody \<Rightarrow>
          makeRequest E c
            (req\<lparr>body := requestBody, contentType := Writer_FormDataContentType w3\<rparr>) resp))))"

fun write_spec_files :: "File list \<Rightarrow> Writer \<Rightarrow> 'v error + Writer" where
  "write_spec_files [] w = Inr w"
| "write_spec_files (f # fs) w =
     (case Writer_CreateFormFile (Field f) (Name f) w of
        Inl err \<Rightarrow> Inl (Wrap (External err) ''create form file'')
      | Inr w1 \<Rightarrow>
          (case io_Copy (R f) w1 of
             Inl err \<Rightarrow> Inl (Wrap (External err) ''preparing file'')
           | Inr w2 \<Rightarrow>
               (case Writer_WriteField (Field f) (CHR ''@'' # Name f) w2 of
                  Inl err \<Rightarrow> Inl (Wrap (External err) ''write maps field'')
                | Inr w3 \<Rightarrow> write_spec_files fs w3)))"

definition runMultipartRequestSpec ::
  "('v, 'r) env \<Rightarrow> Client \<Rightarrow> 'v Request \<Rightarrow> 'r \<Rightarrow> ('v, 'r) result" where
  "runMultipartRequestSpec E c req resp =
     (if len_vars req > 0 then
        failed (New (''variables doesn'' @ [char_of (39 :: nat)] @ ''t supported due to the multipart request spec ''
                     @ ''https://github.com/jaydenseric/graphql-multipart-request-spec/issues/22'')) req resp
      else
     (let multipartRequestSpecQuery = fillMultipartRequestSpecQuery req
      in case json_Marshal E (operations_gval (Operations multipartRequestSpecQuery)) of
        Inl err \<Rightarrow> failed (Wrap (External err) ''marshal operations'') req resp
      | Inr operations \<Rightarrow>
     (case json_Marshal E (map_gval (Map multipartRequestSpecQuery)) of
        Inl err \<Rightarrow> failed (Wrap (External err) ''marshal map'') req resp
      | Inr maps \<Rightarrow>
     (case Writer_WriteField ''operations'' operations (multipart_NewWriter (randomBoundary E)) of
        Inl err \<Rightarrow> failed (Wrap (External err) ''write operation field'') req resp
      | Inr w1 \<Rightarrow>
     (case Writer_WriteField ''map'' maps w1 of
        Inl err \<Rightarrow> failed (Wrap (External err) ''write maps field'') req resp
      | Inr w2 \<Rightarrow>
     (case write_spec_files (files req) w2 of
        Inl err \<Rightarrow> failed err req resp
      | Inr w3 \<Rightarrow>
     (case Writer_Close w3 of
        Inl err \<Rightarrow> failed (Wrap (External err) ''close writer'') req resp
      | Inr requestBody \<Rightarrow>
          makeRequest E c
            (req\<lparr>body := requestBody, contentType := Writer_FormDataContentType w3\<rparr>) resp)))))))"

definition Run :: "('v, 'r) env \<Rightarrow> Client \<Rightarrow> Context \<Rightarrow> 'v Request \<Rightarrow> 'r \<Rightarrow> ('v, 'r) result" where
  "Run E c ctx req resp =
     (case ctx of
        Done err \<Rightarrow> failed (External err) req resp
      | Live \<Rightarrow>
          if length (files req) > 0 \<and> \<not> (useMultipartForm c \<or> useMultipartRequestSpec c) then
            failed (New ''cannot send files with PostFields option'') req resp
          else if useMultipartForm c then runWithPostFields E c req resp
          else if useMultipartRequestSpec c \<and> length (Request_Files req) > 0 then
            runMultipartRequestSpec E c req resp
          else runWithJSON E c req resp)"

subsection \<open>The selection rule in the words of the specification\<close>

text \<open>
  The specification names three strategies and a priority among them: multipart-form
  mode if enabled, else upload-spec mode if enabled and at least one file is present,
  else plain JSON. \<open>spec_strategy\<close> is that rule, and \<open>run_strategy\<close> runs the function of
  the source that implements the strategy; both are compared with \<open>Run\<close> below.
\<close>

datatype strategy = MultipartFormMode | UploadSpecMode | PlainJSON

definition spec_strategy :: "Client \<Rightarrow> 'v Request \<Rightarrow> strategy" where
  "spec_strategy c req =
     (if useMultipartForm c then MultipartFormMode
      else if useMultipartRequestSpec c \<and> files req \<noteq> [] then UploadSpecMode
      else PlainJSON)"

fun run_strategy ::
  "strategy \<Rightarrow> ('v, 'r) env \<Rightarrow> Client \<Rightarrow> 'v Request \<Rightarrow> 'r \<Rightarrow> ('v, 'r) result" where
  "run_strategy MultipartFormMode E c req resp = runWithPostFields E c req resp"
| "run_strategy UploadSpecMode E c req resp = runMultipartRequestSpec E c req resp"
| "run_strategy PlainJSON E c req resp = runWithJSON E c req resp"

text \<open>
  The wire formats of the specification, recognised on a request body: plain JSON is a
  single document; the classic multipart form begins with the field \<open>query\<close>; the
  upload-spec form begins with the fields \<open>operations\<close> and \<open>map\<close>.
\<close>

fun wire_format :: "buffer \<Rightarrow> strategy option" where
  "wire_format (Bytes js) = Some PlainJSON"
| "wire_format (MultipartForm b (FormField n v # FormField n' v' # ps)) =
     (if n = ''query'' then Some MultipartFormMode
      else if n = ''operations'' \<and> n' = ''map'' then Some UploadSpecMode else None)"
| "wire_format (MultipartForm b (FormField n v # ps)) =
     (if n = ''query'' then Some MultipartFormMode else None)"
| "wire_format (MultipartForm b ps) = None"

text \<open>The Content-Type the client sets under each strategy.\<close>

definition client_content_type :: "('v, 'r) env \<Rightarrow> strategy \<Rightarrow> string" where
  "client_content_type E s =
     (case s of
        PlainJSON \<Rightarrow> ''application/json; charset=utf-8''
      | _ \<Rightarrow> Writer_FormDataContentType (multipart_NewWriter (randomBoundary E)))"

subsection \<open>The calls that reach the transport\<close>

text \<open>
  In terms of what \<open>Run\<close> is given: the context is live, the request does not carry files
  without a multipart mode, the endpoint parses as a URL, and the selected strategy can
  build its body, that is, the JSON encoder accepts what the strategy hands to it, every
  file's reader can be read to the end, and under upload-spec mode no variable is set.
  These are exactly the calls on which \<open>Run\<close> hands a request to the transport
  (\<open>Run_sends_iff\<close> below).
\<close>

definition readable :: "File \<Rightarrow> bool" where
  "readable f = (case R f of Content d \<Rightarrow> True | Failing msg \<Rightarrow> False)"

definition reaches_transport :: "('v, 'r) env \<Rightarrow> Client \<Rightarrow> Context \<Rightarrow> 'v Request \<Rightarrow> bool" where
  "reaches_transport E c ctx req =
     (ctx = Live
      \<and> \<not> (files req \<noteq> [] \<and> \<not> useMultipartForm c \<and> \<not> useMultipartRequestSpec c)
      \<and> url_Parse E (endpoint c) = None
      \<and> (case spec_strategy c req of
            PlainJSON \<Rightarrow>
              \<not> isl (json_Marshal E
                (GStruct [(''query'', GString (q req)), (''variables'', vars_gval (vars req))]))
          | MultipartFormMode \<Rightarrow>
              (len_vars req = 0 \<or> \<not> isl (json_Marshal E (vars_gval (vars req))))
              \<and> list_all readable (files req)
          | UploadSpecMode \<Rightarrow>
              len_vars req = 0
              \<and> \<not> isl (json_Marshal E (operations_gval (Operations (fillMultipartRequestSpecQuery req))))
              \<and> \<not> isl (json_Marshal E (map_gval (Map (fillMultipartRequestSpecQuery req))))
              \<and> list_all readable (files req)))"

subsection \<open>A concrete environment\<close>

text \<open>
  An instance of the parameters, on which the theorems below are exercised: variables
  are numbers, the caller's target is a text, the encoder accepts every value, and the
  decoder knows three bodies: an envelope with data only, an envelope with data and one
  error, and the JSON text \<open>null\<close>; any other body is not JSON. The transport answers
  every request with a fixed status and body.
\<close>

definition bad :: "nat Error" where
  "bad = \<lparr>Message = ''bad'', Locations = [(1, 2)], Path = [], Extensions = []\<rparr>"

definition example_decode :: "bytes \<Rightarrow> string \<Rightarrow> (nat, string) decoded" where
  "example_decode b target =
     (if b = ''{data:{x:1}}'' then
        \<lparr>decode_err = None, gr_Data = ''x=1'', gr_Errors = Some []\<rparr>
      else if b = ''{data:{x:1},errors:[{message:bad}]}'' then
        \<lparr>decode_err = None, gr_Data = ''x=1'', gr_Errors = Some [bad]\<rparr>
      else if b = ''null'' then
        \<lparr>decode_err = None, gr_Data = target, gr_Errors = None\<rparr>
      else
        \<lparr>decode_err = Some ''invalid character'', gr_Data = target, gr_Errors = Some []\<rparr>)"

definition example_env :: "(nat, string) env" where
  "example_env =
     \<lparr>json_Marshal = (\<lambda>v. Inr ''{}''), json_Decode = example_decode,
      randomBoundary = ''b0'', url_Parse = (\<lambda>u. None)\<rparr>"

definition server :: "int \<Rightarrow> bytes \<Rightarrow> http_Request \<Rightarrow> string + Response" where
  "server status b r = Inr \<lparr>StatusCode = status, ResBody = Inr b\<rparr>"

definition example_client :: "int \<Rightarrow> bytes \<Rightarrow> ClientOption list \<Rightarrow> Client" where
  "example_client status b opts = NewClient (server status b) ''http://localhost/graphql'' opts"

definition query_only :: "nat Request" where
  "query_only = (NewRequest ''{ me }'')\<lparr>Header := [(''x-trace'', [''t1''])]\<rparr>"

definition one_file :: "nat Request" where
  "one_file = Request_File ''file'' ''a.txt'' (Content ''A'') (NewRequest ''mutation'')"

definition one_file_with_var :: "nat Request" where
  "one_file_with_var = Request_Var ''id'' 7 one_file"

definition one_file_traced :: "nat Request" where
  "one_file_traced = one_file\<lparr>Header := [(''x-trace'', [''t1''])]\<rparr>"

definition two_files_same_field :: "nat Request" where
  "two_files_same_field =
     Request_File ''doc'' ''b.txt'' (Content ''B'')
       (Request_File ''doc'' ''a.txt'' (Content ''A'') (NewRequest ''mutation''))"

definition two_files :: "nat Request" where
  "two_files =
     Request_File ''second'' ''b.txt'' (Content ''B'')
       (Request_File ''first'' ''a.txt'' (Content ''A'') (NewRequest ''mutation''))"

definition two_files_traced :: "nat Request" where
  "two_files_traced = two_files\<lparr>Header := [(''x-trace'', [''t1''])]\<rparr>"

section \<open>Properties\<close>

subsection \<open>Rendering an error list\<close>

lemma collect_messages_eq:
  "length result = i + length l \<Longrightarrow> collect_messages i l result = take i result @ map Message l"
proof (induction l arbitrary: i result)
  case Nil
  then show ?case by simp
next
  case (Cons e es)
  then show ?case
    by (simp add: take_Suc_conv_app_nth)
qed

lemma Join_eq: "Join (a # elems) sep = a @ concat (map (\<lambda>s. sep @ s) elems)"
  by (induction elems arbitrary: a) auto

text \<open>
  C8. The text of a non-empty error list is the prefix \<open>graphql: \<close> followed by the
  messages of its members joined with the separator \<open> | \<close>: the first message, then for
  each further member, in the order of the list, the separator and its message.
\<close>

theorem Errors_Error_joins_messages:
  "l \<noteq> [] \<Longrightarrow>
     Errors_Error l = ''graphql: '' @ Join (map Message l) '' | ''
     \<and> Join (map Message l) '' | '' = Message (hd l) @ concat (map (\<lambda>e. '' | '' @ Message e) (tl l))"
proof -
  assume "l \<noteq> []"
  then obtain e es where l: "l = e # es" by (cases l) auto
  have "collect_messages 0 l (replicate (length l) []) = map Message l"
    using collect_messages_eq [of "replicate (length l) []" 0 l] by simp
  then show ?thesis
    by (simp add: Errors_Error_def l Join_eq comp_def del: collect_messages.simps)
qed

theorem Errors_Error_joins_messages_witness:
  "[bad, bad\<lparr>Message := ''worse''\<rparr>] \<noteq> []
   \<and> Errors_Error [bad, bad\<lparr>Message := ''worse''\<rparr>] = ''graphql: bad | worse''"
proof -
  have "[bad, bad\<lparr>Message := ''worse''\<rparr>] \<noteq> []" by simp
  from Errors_Error_joins_messages [OF this] show ?thesis
    by (simp add: bad_def)
qed

lemmas example_defs =
  example_env_def example_client_def example_decode_def server_def NewClient_def NewRequest_def
  Request_File_def Request_Var_def query_only_def one_file_def two_files_def
  two_files_same_field_def one_file_with_var_def one_file_traced_def two_files_traced_def bad_def

lemmas run_defs = Run_def runWithJSON_def runWithPostFields_def runMultipartRequestSpec_def
  makeRequest_def exchange_def set_headers_def failed_def http_NewRequest_def json_Encode_def
  Request_Files_def Request_Query_def len_vars_def

lemma Itoa_examples: "Itoa 201 = ''201''" "Itoa 500 = ''500''"
  by (simp_all add: Itoa_def utoa.simps)

subsection \<open>The map of the upload specification\<close>

text \<open>
  The loop over the files assigns to the Go map under the file's field name: a later
  file with the same field name replaces the entry of an earlier one.
\<close>

lemma fill_files_other:
  "name \<notin> Field ` set fs \<Longrightarrow> map_of (snd (fill_files k fs (vs, m))) name = map_of m name"
  by (induction fs arbitrary: k vs m) (auto simp: update_conv')

lemma fill_files_keys:
  "fst ` set (snd (fill_files k fs (vs, m))) = Field ` set fs \<union> fst ` set m"
  by (induction fs arbitrary: k vs m) (auto simp: dom_update)

lemma fill_files_distinct:
  "distinct (map fst m) \<Longrightarrow> distinct (map fst (snd (fill_files k fs (vs, m))))"
  by (induction fs arbitrary: k vs m) (auto simp: distinct_update)

lemma fill_files_entry:
  "i < length fs \<Longrightarrow> \<forall>j. i < j \<and> j < length fs \<longrightarrow> Field (fs ! j) \<noteq> Field (fs ! i) \<Longrightarrow>
     map_of (snd (fill_files k fs (vs, m))) (Field (fs ! i)) = Some [''variables.files.'' @ Itoa (k + int i)]"
proof (induction fs arbitrary: i k vs m)
  case Nil
  then show ?case by simp
next
  case (Cons f rest)
  show ?case
  proof (cases i)
    case 0
    have "Field f \<notin> Field ` set rest"
    proof
      assume "Field f \<in> Field ` set rest"
      then obtain j where "j < length rest" "Field (rest ! j) = Field f"
        by (auto simp: in_set_conv_nth)
      with Cons.prems(2) [rule_format, of "Suc j"] 0 show False by simp
    qed
    then show ?thesis
      using 0 by (simp add: fill_files_other update_conv')
  next
    case (Suc i')
    have "i' < length rest" using Cons.prems(1) Suc by simp
    moreover have "\<forall>j. i' < j \<and> j < length rest \<longrightarrow> Field (rest ! j) \<noteq> Field (rest ! i')"
    proof (intro allI impI)
      fix j assume "i' < j \<and> j < length rest"
      with Cons.prems(2) [rule_format, of "Suc j"] Suc
      show "Field (rest ! j) \<noteq> Field (rest ! i')" by simp
    qed
    ultimately show ?thesis
      using Cons.IH [of i' "k + 1"] Suc by (simp add: add.assoc)
  qed
qed

lemma fill_two_or_more:
  fixes req :: "'v Request"
  shows "2 \<le> length (files req) \<Longrightarrow>
     Map (fillMultipartRequestSpecQuery req) = snd (fill_files 0 (files req) ([] :: 'v option list, []))"
  by (auto simp: fillMultipartRequestSpecQuery_def Request_Files_def Let_def split: prod.splits)

text \<open>
  C3 (as amended). With exactly one file the map is \<open>{fieldName: ["variables.file"]}\<close>. With
  two or more files whose field names are pairwise distinct, the keys of the map are
  exactly the field names of the files, and the entry under the field name of file \<open>i\<close>
  is \<open>["variables.files.<i>"]\<close> (zero-based), for every \<open>i\<close>.
\<close>

theorem upload_spec_map:
  fixes req :: "'v Request"
  shows
  "(files req = [f] \<longrightarrow> Map (fillMultipartRequestSpecQuery req) = [(Field f, [''variables.file''])])
   \<and> (2 \<le> length (files req) \<and> distinct (map Field (files req)) \<longrightarrow>
        fst ` set (Map (fillMultipartRequestSpecQuery req)) = Field ` set (files req)
        \<and> distinct (map fst (Map (fillMultipartRequestSpecQuery req)))
        \<and> (\<forall>i < length (files req).
              map_of (Map (fillMultipartRequestSpecQuery req)) (Field (files req ! i))
                = Some [''variables.files.'' @ Itoa (int i)]))"
proof (intro conjI impI)
  assume "files req = [f]"
  then show "Map (fillMultipartRequestSpecQuery req) = [(Field f, [''variables.file''])]"
    by (simp add: fillMultipartRequestSpecQuery_def Request_Files_def)
next
  assume h: "2 \<le> length (files req) \<and> distinct (map Field (files req))"
  then have n: "2 \<le> length (files req)" by simp
  show "fst ` set (Map (fillMultipartRequestSpecQuery req)) = Field ` set (files req)"
    by (simp add: fill_two_or_more [OF n] fill_files_keys)
  show "distinct (map fst (Map (fillMultipartRequestSpecQuery req)))"
    by (simp add: fill_two_or_more [OF n] fill_files_distinct)
  show "\<forall>i < length (files req).
          map_of (Map (fillMultipartRequestSpecQuery req)) (Field (files req ! i))
            = Some [''variables.files.'' @ Itoa (int i)]"
  proof (intro allI impI)
    fix i assume i: "i < length (files req)"
    have "\<forall>j. i < j \<and> j < length (files req) \<longrightarrow> Field (files req ! j) \<noteq> Field (files req ! i)"
      using h i by (auto simp: distinct_conv_nth)
    from fill_files_entry [OF i this, of 0 "[] :: 'v option list" "[]"]
    show "map_of (Map (fillMultipartRequestSpecQuery req)) (Field (files req ! i))
            = Some [''variables.files.'' @ Itoa (int i)]"
      by (simp add: fill_two_or_more [OF n])
  qed
qed

theorem upload_spec_map_witness:
  "files one_file = [\<lparr>Field = ''file'', Name = ''a.txt'', R = Content ''A''\<rparr>]
   \<and> Map (fillMultipartRequestSpecQuery one_file) = [(''file'', [''variables.file''])]
   \<and> 2 \<le> length (files two_files) \<and> distinct (map Field (files two_files))
   \<and> map_of (Map (fillMultipartRequestSpecQuery two_files)) ''first'' = Some [''variables.files.0'']
   \<and> map_of (Map (fillMultipartRequestSpecQuery two_files)) ''second'' = Some [''variables.files.1'']"
proof -
  have one: "files one_file = [\<lparr>Field = ''file'', Name = ''a.txt'', R = Content ''A''\<rparr>]"
    by (simp add: example_defs)
  have fs: "files two_files = [\<lparr>Field = ''first'', Name = ''a.txt'', R = Content ''A''\<rparr>,
                              \<lparr>Field = ''second'', Name = ''b.txt'', R = Content ''B''\<rparr>]"
    by (simp add: example_defs)
  have two: "2 \<le> length (files two_files) \<and> distinct (map Field (files two_files))"
    by (simp add: fs)
  from upload_spec_map [of one_file "\<lparr>Field = ''file'', Name = ''a.txt'', R = Content ''A''\<rparr>"] one
  have a: "Map (fillMultipartRequestSpecQuery one_file) = [(''file'', [''variables.file''])]"
    by simp
  from upload_spec_map [of two_files] two
  have entries: "\<forall>i < length (files two_files).
          map_of (Map (fillMultipartRequestSpecQuery two_files)) (Field (files two_files ! i))
            = Some [''variables.files.'' @ Itoa (int i)]"
    by blast
  from entries [THEN spec, of 0]
  have b: "map_of (Map (fillMultipartRequestSpecQuery two_files)) ''first'' = Some [''variables.files.0'']"
    by (simp add: fs Itoa_def utoa.simps)
  from entries [THEN spec, of 1]
  have c: "map_of (Map (fillMultipartRequestSpecQuery two_files)) ''second'' = Some [''variables.files.1'']"
    by (simp add: fs Itoa_def utoa.simps)
  show ?thesis using one two a b c by simp
qed

text \<open>
  As stated, with an entry for every file even when field names repeat, C3 fails: for two
  files declared under the field name \<open>doc\<close> the map is \<open>{doc: ["variables.files.1"]}\<close>, and
  the entry \<open>doc: ["variables.files.0"]\<close> of the first file is not in it, while \<open>Run\<close>
  sends both files and reports success.
\<close>

theorem upload_spec_map_counterexample:
  "length (files two_files_same_field) = 2
   \<and> Field (files two_files_same_field ! 0) = ''doc''
   \<and> Field (files two_files_same_field ! 1) = ''doc''
   \<and> Map (fillMultipartRequestSpecQuery two_files_same_field) = [(''doc'', [''variables.files.1''])]
   \<and> (''doc'', [''variables.files.'' @ Itoa 0]) \<notin> set (Map (fillMultipartRequestSpecQuery two_files_same_field))
   \<and> outcome (Run example_env (example_client 200 ''{data:{x:1}}'' [UseMultipartRequestSpec]) Live
                two_files_same_field ''old'') = Returns None"
  by (simp add: example_defs fillMultipartRequestSpecQuery_def Request_Files_def Request_Query_def
      Itoa_def utoa.simps run_defs Writer_WriteField_def Writer_CreateFormField_def Writer_CreateFormFile_def
      io_Copy_def part_Write_def Writer_Close_def multipart_NewWriter_def)

subsection \<open>The multipart writer and the shape of a call\<close>

lemma boundary_part_Write [simp]: "boundary (part_Write d w) = boundary w"
  by (simp add: part_Write_def split: list.splits)

lemma part_Write_snoc:
  "part_Write d (w\<lparr>parts := ps @ [p]\<rparr>) = w\<lparr>parts := ps @ [part_append d p]\<rparr>"
  by (simp add: part_Write_def)

lemma WriteField_Inr:
  "Writer_WriteField n v w = Inr (w\<lparr>parts := parts w @ [FormField n v]\<rparr>)"
  by (simp add: Writer_WriteField_def Writer_CreateFormField_def part_Write_snoc)

lemma write_files_parts:
  "write_files fs w = Inr w' \<Longrightarrow> boundary w' = boundary w \<and> (\<exists>ps. parts w' = parts w @ ps)"
proof (induction fs arbitrary: w)
  case Nil
  then show ?case by simp
next
  case (Cons f fs)
  then show ?case
    by (fastforce simp: Writer_CreateFormFile_def io_Copy_def part_Write_snoc
        split: sum.splits Reader.splits)
qed

lemma write_spec_files_parts:
  "write_spec_files fs w = Inr w' \<Longrightarrow> boundary w' = boundary w \<and> (\<exists>ps. parts w' = parts w @ ps)"
proof (induction fs arbitrary: w)
  case Nil
  then show ?case by simp
next
  case (Cons f fs)
  then show ?case
    by (fastforce simp: Writer_CreateFormFile_def io_Copy_def part_Write_snoc WriteField_Inr
        split: sum.splits Reader.splits)
qed

lemma write_variables_parts:
  "write_variables E req w = Inr w' \<Longrightarrow> boundary w' = boundary w \<and> (\<exists>ps. parts w' = parts w @ ps)"
  by (auto simp: write_variables_def Writer_CreateFormField_def part_Write_snoc
      split: if_splits sum.splits)

lemma FormDataContentType_boundary:
  "boundary w' = boundary w \<Longrightarrow> Writer_FormDataContentType w' = Writer_FormDataContentType w"
  by (simp add: Writer_FormDataContentType_def)

lemma write_files_error: "write_files fs w = Inl err \<Longrightarrow> \<exists>e msg. err = Wrap e msg"
  by (induction fs arbitrary: w) (auto split: sum.splits)

lemma write_spec_files_error: "write_spec_files fs w = Inl err \<Longrightarrow> \<exists>e msg. err = Wrap e msg"
  by (induction fs arbitrary: w) (auto split: sum.splits)

lemma write_variables_error: "write_variables E req w = Inl err \<Longrightarrow> \<exists>e msg. err = Wrap e msg"
  by (auto simp: write_variables_def split: if_splits sum.splits)

lemma not_GraphQLErrors:
  "\<exists>err. (\<forall>l. err \<noteq> GraphQLErrors l) \<and> failed (New m) req resp = failed err req resp"
  "\<exists>err. (\<forall>l. err \<noteq> GraphQLErrors l) \<and> failed (Wrap e m) req resp = failed err req resp"
  "\<exists>err. (\<forall>l. err \<noteq> GraphQLErrors l) \<and> failed (External m) req resp = failed err req resp"
  by (rule exI [of _ "New m"], simp, rule exI [of _ "Wrap e m"], simp, rule exI [of _ "External m"], simp)

lemma failedI:
  "res = failed err req resp \<Longrightarrow> \<exists>e msg. err = Wrap e msg \<Longrightarrow>
     (\<exists>err. (\<forall>l. err \<noteq> GraphQLErrors l) \<and> res = failed err req resp) \<or> P"
  by auto

lemma wire_format_query:
  "wire_format (MultipartForm b (FormField ''query'' v # ps)) = Some MultipartFormMode"
proof (cases ps)
  case Nil
  then show ?thesis by simp
next
  case (Cons p ps')
  then show ?thesis by (cases p) simp_all
qed

lemma wire_format_operations:
  "wire_format (MultipartForm b (FormField ''operations'' v # FormField ''map'' v' # ps)) = Some UploadSpecMode"
  by simp

lemma sent_failed: "sent (failed err req resp) = []"
  and req_after_failed: "req_after (failed err req resp) = req"
  and resp_after_failed: "resp_after (failed err req resp) = resp"
  and outcome_failed: "outcome (failed err req resp) = Returns (Some err)"
  by (simp_all add: failed_def)

lemma sent_exchange: "sent (exchange E c ct r0 req resp) = [set_headers c ct req r0]"
  by (simp add: exchange_def Let_def split: sum.splits option.splits)

lemma req_after_exchange: "req_after (exchange E c ct r0 req resp) = req"
  by (simp add: exchange_def Let_def split: sum.splits option.splits)

lemma exchange_errors_nonempty:
  "outcome (exchange E c ct r0 req resp) = Returns (Some (GraphQLErrors l)) \<Longrightarrow> l \<noteq> []"
  by (auto simp: exchange_def Let_def split: sum.splits option.splits if_splits)

lemma Body_set_headers: "Body (set_headers c ct req r0) = Body r0"
  by (simp add: set_headers_def)

lemma exchange_after_read:
  assumes "httpClient c (set_headers c ct req r0) = Inr res" and "ResBody res = Inr buf"
  shows "exchange E c ct r0 req resp =
     (let d = json_Decode E buf resp
      in case decode_err d of
           Some err \<Rightarrow>
             \<lparr>outcome = Returns (Some
                (if StatusCode res \<noteq> 200
                 then Errorf (''graphql: server returned a non-200 status code: '' @ Itoa (StatusCode res))
                 else Wrap (External err) ''decoding response'')),
              req_after = req, resp_after = gr_Data d, sent = [set_headers c ct req r0]\<rparr>
         | None \<Rightarrow>
             (case gr_Errors d of
                None \<Rightarrow> \<lparr>outcome = Panics, req_after = req, resp_after = gr_Data d,
                          sent = [set_headers c ct req r0]\<rparr>
              | Some errs \<Rightarrow>
                  \<lparr>outcome = Returns (if length errs > 0 then Some (GraphQLErrors errs) else None),
                   req_after = req, resp_after = gr_Data d, sent = [set_headers c ct req r0]\<rparr>))"
  using assms by (simp add: exchange_def Let_def)

text \<open>
  Each strategy either fails before a request is built, or stages the body and the
  content type on the request (the two multipart strategies) and goes on to
  \<open>makeRequest\<close>, or (plain JSON) builds the request itself and reaches the exchange.
\<close>

lemma makeRequest_shape:
  "(\<exists>err. makeRequest E c req resp = failed (External err) req resp) \<or>
   (\<exists>r0. Headers r0 = Map.empty \<and> Body r0 = body req \<and>
      makeRequest E c req resp = exchange E c (contentType req) r0 req resp)"
proof (cases "url_Parse E (endpoint c)")
  case None
  let ?r0 = "\<lparr>Method = ''POST'', URL = endpoint c, Close = False, Headers = Map.empty, Body = body req\<rparr>"
  have "makeRequest E c req resp = exchange E c (contentType req) ?r0 req resp"
    by (simp add: makeRequest_def http_NewRequest_def None)
  moreover have "Headers ?r0 = Map.empty \<and> Body ?r0 = body req" by simp
  ultimately show ?thesis by blast
next
  case (Some err)
  then have "makeRequest E c req resp = failed (External err) req resp"
    by (simp add: makeRequest_def http_NewRequest_def)
  then show ?thesis by blast
qed

lemma runWithJSON_shape:
  "(\<exists>err. (\<forall>l. err \<noteq> GraphQLErrors l) \<and> runWithJSON E c req resp = failed err req resp) \<or>
   (\<exists>r0 js. Headers r0 = Map.empty \<and> Body r0 = Bytes js \<and> runWithJSON E c req resp =
      exchange E c ''application/json; charset=utf-8'' r0 req resp)"
proof (cases "json_Encode E (GStruct [(''query'', GString (q req)), (''variables'', vars_gval (vars req))])")
  case (Inl err)
  then show ?thesis by (simp add: runWithJSON_def not_GraphQLErrors)
next
  case js: (Inr js)
  show ?thesis
  proof (cases "url_Parse E (endpoint c)")
    case None
    let ?r0 = "\<lparr>Method = ''POST'', URL = endpoint c, Close = False, Headers = Map.empty, Body = Bytes js\<rparr>"
    have "runWithJSON E c req resp = exchange E c ''application/json; charset=utf-8'' ?r0 req resp"
      by (simp add: runWithJSON_def http_NewRequest_def None js)
    moreover have "Headers ?r0 = Map.empty \<and> Body ?r0 = Bytes js" by simp
    ultimately show ?thesis by blast
  next
    case (Some err)
    then show ?thesis by (simp add: runWithJSON_def http_NewRequest_def js not_GraphQLErrors)
  qed
qed

lemma runWithPostFields_shape:
  fixes req :: "'v Request"
  shows
  "(\<exists>err. (\<forall>l. err \<noteq> GraphQLErrors l) \<and> runWithPostFields E c req resp = failed err req resp) \<or>
   (\<exists>ps. runWithPostFields E c req resp =
      makeRequest E c
        (req\<lparr>body := MultipartForm (randomBoundary E) (FormField ''query'' (q req) # ps),
             contentType := Writer_FormDataContentType (multipart_NewWriter (randomBoundary E))\<rparr>) resp)"
proof (cases "write_variables E req
      ((multipart_NewWriter (randomBoundary E))\<lparr>parts := [FormField ''query'' (q req)]\<rparr>)")
  case (Inl err)
  have "runWithPostFields E c req resp = failed err req resp"
    using Inl by (simp add: runWithPostFields_def WriteField_Inr multipart_NewWriter_def)
  then show ?thesis
    using write_variables_error [OF Inl] by (rule failedI)
next
  case w2: (Inr w2)
  note v = write_variables_parts [OF w2]
  show ?thesis
  proof (cases "write_files (files req) w2 :: 'v error + Writer")
    case (Inl err)
    have "runWithPostFields E c req resp = failed err req resp"
      using Inl w2 by (simp add: runWithPostFields_def WriteField_Inr multipart_NewWriter_def)
    then show ?thesis
      using write_files_error [OF Inl] by (rule failedI)
  next
    case w3: (Inr w3)
    note f = write_files_parts [OF w3]
    from v f obtain ps where ps: "parts w3 = FormField ''query'' (q req) # ps"
      by (auto simp: multipart_NewWriter_def)
    have b: "boundary w3 = randomBoundary E"
      using v f by (simp add: multipart_NewWriter_def)
    have ct: "Writer_FormDataContentType w3 = Writer_FormDataContentType (multipart_NewWriter (randomBoundary E))"
      by (rule FormDataContentType_boundary) (simp add: b multipart_NewWriter_def)
    have "runWithPostFields E c req resp =
      makeRequest E c
        (req\<lparr>body := MultipartForm (randomBoundary E) (FormField ''query'' (q req) # ps),
             contentType := Writer_FormDataContentType (multipart_NewWriter (randomBoundary E))\<rparr>) resp"
      using w2 w3 ps b ct
      by (simp add: runWithPostFields_def WriteField_Inr multipart_NewWriter_def Writer_Close_def)
    then show ?thesis by blast
  qed
qed

lemma runMultipartRequestSpec_shape:
  fixes req :: "'v Request"
  shows
  "(\<exists>err. (\<forall>l. err \<noteq> GraphQLErrors l) \<and> runMultipartRequestSpec E c req resp = failed err req resp) \<or>
   (\<exists>operations maps ps.
      json_Marshal E (operations_gval (Operations (fillMultipartRequestSpecQuery req))) = Inr operations \<and>
      json_Marshal E (map_gval (Map (fillMultipartRequestSpecQuery req))) = Inr maps \<and>
      runMultipartRequestSpec E c req resp =
      makeRequest E c
        (req\<lparr>body := MultipartForm (randomBoundary E)
                 (FormField ''operations'' operations # FormField ''map'' maps # ps),
             contentType := Writer_FormDataContentType (multipart_NewWriter (randomBoundary E))\<rparr>) resp)"
proof (cases "len_vars req > 0")
  case True
  then show ?thesis by (simp add: runMultipartRequestSpec_def not_GraphQLErrors)
next
  case novars: False
  show ?thesis
  proof (cases "json_Marshal E (operations_gval (Operations (fillMultipartRequestSpecQuery req)))")
    case (Inl err)
    then show ?thesis using novars by (simp add: runMultipartRequestSpec_def not_GraphQLErrors)
  next
    case ops: (Inr operations)
    show ?thesis
    proof (cases "json_Marshal E (map_gval (Map (fillMultipartRequestSpecQuery req)))")
      case (Inl err)
      then show ?thesis using novars ops by (simp add: runMultipartRequestSpec_def not_GraphQLErrors)
    next
      case maps: (Inr maps)
      let ?w2 = "(multipart_NewWriter (randomBoundary E))
                   \<lparr>parts := [FormField ''operations'' operations, FormField ''map'' maps]\<rparr>"
      show ?thesis
      proof (cases "write_spec_files (files req) ?w2 :: 'v error + Writer")
        case (Inl err)
        have "runMultipartRequestSpec E c req resp = failed err req resp"
          using Inl novars ops maps
          by (simp add: runMultipartRequestSpec_def WriteField_Inr multipart_NewWriter_def)
        then show ?thesis
          using write_spec_files_error [OF Inl] by (rule failedI)
      next
        case w3: (Inr w3)
        note f = write_spec_files_parts [OF w3]
        from f obtain ps where ps: "parts w3 = FormField ''operations'' operations # FormField ''map'' maps # ps"
          by (auto simp: multipart_NewWriter_def)
        have b: "boundary w3 = randomBoundary E"
          using f by (simp add: multipart_NewWriter_def)
        have ct: "Writer_FormDataContentType w3 = Writer_FormDataContentType (multipart_NewWriter (randomBoundary E))"
          by (rule FormDataContentType_boundary) (simp add: b multipart_NewWriter_def)
        have "runMultipartRequestSpec E c req resp =
          makeRequest E c
            (req\<lparr>body := MultipartForm (randomBoundary E)
                     (FormField ''operations'' operations # FormField ''map'' maps # ps),
                 contentType := Writer_FormDataContentType (multipart_NewWriter (randomBoundary E))\<rparr>) resp"
          using novars ops maps w3 ps b ct
          by (simp add: runMultipartRequestSpec_def WriteField_Inr multipart_NewWriter_def Writer_Close_def)
        then show ?thesis using ops maps by blast
      qed
    qed
  qed
qed

lemma run_strategy_shape:
  fixes req :: "'v Request"
  shows
  "(\<exists>err. (\<forall>l. err \<noteq> GraphQLErrors l) \<and> run_strategy s E c req resp = failed err req resp) \<or>
   (\<exists>req' r0.
      (if s = PlainJSON then req' = req
       else \<exists>b. req' = req\<lparr>body := b, contentType := client_content_type E s\<rparr>) \<and>
      ((\<exists>err. run_strategy s E c req resp = failed (External err) req' resp) \<or>
       (Headers r0 = Map.empty \<and> wire_format (Body r0) = Some s \<and>
        run_strategy s E c req resp = exchange E c (client_content_type E s) r0 req' resp)))"
proof (cases s)
  case PlainJSON
  from runWithJSON_shape [of E c req resp] show ?thesis
  proof
    assume "\<exists>err. (\<forall>l. err \<noteq> GraphQLErrors l) \<and> runWithJSON E c req resp = failed err req resp"
    then show ?thesis using PlainJSON by simp
  next
    assume "\<exists>r0 js. Headers r0 = Map.empty \<and> Body r0 = Bytes js \<and>
      runWithJSON E c req resp = exchange E c ''application/json; charset=utf-8'' r0 req resp"
    then obtain r0 js where "Headers r0 = Map.empty" "Body r0 = Bytes js"
      "runWithJSON E c req resp = exchange E c ''application/json; charset=utf-8'' r0 req resp"
      by blast
    then have "Headers r0 = Map.empty \<and> wire_format (Body r0) = Some s \<and>
        run_strategy s E c req resp = exchange E c (client_content_type E s) r0 req resp"
      using PlainJSON by (simp add: client_content_type_def)
    then show ?thesis using PlainJSON by auto
  qed
next
  case MultipartFormMode
  from runWithPostFields_shape [of E c req resp] show ?thesis
  proof
    assume "\<exists>err. (\<forall>l. err \<noteq> GraphQLErrors l) \<and> runWithPostFields E c req resp = failed err req resp"
    then show ?thesis using MultipartFormMode by simp
  next
    assume "\<exists>ps. runWithPostFields E c req resp =
      makeRequest E c
        (req\<lparr>body := MultipartForm (randomBoundary E) (FormField ''query'' (q req) # ps),
             contentType := Writer_FormDataContentType (multipart_NewWriter (randomBoundary E))\<rparr>) resp"
    then obtain ps where run: "runWithPostFields E c req resp =
      makeRequest E c
        (req\<lparr>body := MultipartForm (randomBoundary E) (FormField ''query'' (q req) # ps),
             contentType := Writer_FormDataContentType (multipart_NewWriter (randomBoundary E))\<rparr>) resp"
      by blast
    let ?req' = "req\<lparr>body := MultipartForm (randomBoundary E) (FormField ''query'' (q req) # ps),
             contentType := client_content_type E s\<rparr>"
    have st: "\<exists>b. ?req' = req\<lparr>body := b, contentType := client_content_type E s\<rparr>" by blast
    have run': "run_strategy s E c req resp = makeRequest E c ?req' resp"
      using run MultipartFormMode by (simp add: client_content_type_def)
    from makeRequest_shape [of E c ?req' resp] show ?thesis
    proof
      assume "\<exists>err. makeRequest E c ?req' resp = failed (External err) ?req' resp"
      then have "\<exists>err. run_strategy s E c req resp = failed (External err) ?req' resp"
        using run' by simp
      then show ?thesis using st MultipartFormMode by (intro disjI2 exI [of _ ?req']) auto
    next
      assume "\<exists>r0. Headers r0 = Map.empty \<and> Body r0 = body ?req' \<and>
        makeRequest E c ?req' resp = exchange E c (contentType ?req') r0 ?req' resp"
      then obtain r0 where "Headers r0 = Map.empty" "Body r0 = body ?req'"
        "makeRequest E c ?req' resp = exchange E c (contentType ?req') r0 ?req' resp" by blast
      then have "Headers r0 = Map.empty \<and> wire_format (Body r0) = Some s \<and>
        run_strategy s E c req resp = exchange E c (client_content_type E s) r0 ?req' resp"
        using run' MultipartFormMode by (simp add: wire_format_query)
      then show ?thesis using st MultipartFormMode by (intro disjI2 exI [of _ ?req'] exI [of _ r0]) auto
    qed
  qed
next
  case UploadSpecMode
  from runMultipartRequestSpec_shape [of E c req resp] show ?thesis
  proof
    assume "\<exists>err. (\<forall>l. err \<noteq> GraphQLErrors l) \<and> runMultipartRequestSpec E c req resp = failed err req resp"
    then show ?thesis using UploadSpecMode by simp
  next
    assume "\<exists>operations maps ps.
      json_Marshal E (operations_gval (Operations (fillMultipartRequestSpecQuery req))) = Inr operations \<and>
      json_Marshal E (map_gval (Map (fillMultipartRequestSpecQuery req))) = Inr maps \<and>
      runMultipartRequestSpec E c req resp =
      makeRequest E c
        (req\<lparr>body := MultipartForm (randomBoundary E)
                 (FormField ''operations'' operations # FormField ''map'' maps # ps),
             contentType := Writer_FormDataContentType (multipart_NewWriter (randomBoundary E))\<rparr>) resp"
    then obtain operations maps ps where run: "runMultipartRequestSpec E c req resp =
      makeRequest E c
        (req\<lparr>body := MultipartForm (randomBoundary E)
                 (FormField ''operations'' operations # FormField ''map'' maps # ps),
             contentType := Writer_FormDataContentType (multipart_NewWriter (randomBoundary E))\<rparr>) resp"
      by blast
    let ?req' = "req\<lparr>body := MultipartForm (randomBoundary E)
                 (FormField ''operations'' operations # FormField ''map'' maps # ps),
             contentType := client_content_type E s\<rparr>"
    have st: "\<exists>b. ?req' = req\<lparr>body := b, contentType := client_content_type E s\<rparr>" by blast
    have run': "run_strategy s E c req resp = makeRequest E c ?req' resp"
      using run UploadSpecMode by (simp add: client_content_type_def)
    from makeRequest_shape [of E c ?req' resp] show ?thesis
    proof
      assume "\<exists>err. makeRequest E c ?req' resp = failed (External err) ?req' resp"
      then have "\<exists>err. run_strategy s E c req resp = failed (External err) ?req' resp"
        using run' by simp
      then show ?thesis using st UploadSpecMode by (intro disjI2 exI [of _ ?req']) auto
    next
      assume "\<exists>r0. Headers r0 = Map.empty \<and> Body r0 = body ?req' \<and>
        makeRequest E c ?req' resp = exchange E c (contentType ?req') r0 ?req' resp"
      then obtain r0 where "Headers r0 = Map.empty" "Body r0 = body ?req'"
        "makeRequest E c ?req' resp = exchange E c (contentType ?req') r0 ?req' resp" by blast
      then have "Headers r0 = Map.empty \<and> wire_format (Body r0) = Some s \<and>
        run_strategy s E c req resp = exchange E c (client_content_type E s) r0 ?req' resp"
        using run' UploadSpecMode by simp
      then show ?thesis using st UploadSpecMode by (intro disjI2 exI [of _ ?req'] exI [of _ r0]) auto
    qed
  qed
qed

subsection \<open>Pre-flight checks and dispatch\<close>

lemma Run_Done: "Run E c (Done e) req resp = failed (External e) req resp"
  by (simp add: Run_def)

lemma Run_no_mode:
  "files req \<noteq> [] \<Longrightarrow> \<not> useMultipartForm c \<Longrightarrow> \<not> useMultipartRequestSpec c \<Longrightarrow>
     Run E c Live req resp = failed (New ''cannot send files with PostFields option'') req resp"
  by (simp add: Run_def)

lemma Run_dispatch:
  "\<not> (files req \<noteq> [] \<and> \<not> useMultipartForm c \<and> \<not> useMultipartRequestSpec c) \<Longrightarrow>
     Run E c Live req resp = run_strategy (spec_strategy c req) E c req resp"
  by (auto simp: Run_def spec_strategy_def Request_Files_def)

lemma Run_shape:
  fixes req :: "'v Request"
  shows
  "(\<exists>err. (\<forall>l. err \<noteq> GraphQLErrors l) \<and> Run E c ctx req resp = failed err req resp) \<or>
   (\<exists>req' r0.
      (if spec_strategy c req = PlainJSON then req' = req
       else \<exists>b. req' = req\<lparr>body := b, contentType := client_content_type E (spec_strategy c req)\<rparr>) \<and>
      ((\<exists>err. Run E c ctx req resp = failed (External err) req' resp) \<or>
       (Headers r0 = Map.empty \<and> wire_format (Body r0) = Some (spec_strategy c req) \<and>
        Run E c ctx req resp =
          exchange E c (client_content_type E (spec_strategy c req)) r0 req' resp)))"
proof (cases ctx)
  case (Done e)
  then show ?thesis by (simp add: Run_Done not_GraphQLErrors)
next
  case Live
  show ?thesis
  proof (cases "files req \<noteq> [] \<and> \<not> useMultipartForm c \<and> \<not> useMultipartRequestSpec c")
    case True
    then show ?thesis using Live by (simp add: Run_no_mode not_GraphQLErrors)
  next
    case False
    then have "Run E c ctx req resp = run_strategy (spec_strategy c req) E c req resp"
      using Live Run_dispatch by simp
    then show ?thesis
      using run_strategy_shape [of "spec_strategy c req" E c req resp] by simp
  qed
qed

lemma staged_self: "\<exists>b ct. req = req\<lparr>body := b, contentType := ct\<rparr>"
  by (rule exI [of _ "body req"], rule exI [of _ "contentType req"]) simp

lemma Run_cases:
  fixes req :: "'v Request"
  obtains (failed) err req' where
      "Run E c ctx req resp = failed err req' resp" and "\<forall>l. err \<noteq> GraphQLErrors l"
      and "\<exists>b ct. req' = req\<lparr>body := b, contentType := ct\<rparr>"
      and "spec_strategy c req = PlainJSON \<longrightarrow> req' = req"
  | (exchange) req' r0 where
      "Run E c ctx req resp = exchange E c (client_content_type E (spec_strategy c req)) r0 req' resp"
      and "Headers r0 = Map.empty" and "wire_format (Body r0) = Some (spec_strategy c req)"
      and "\<exists>b ct. req' = req\<lparr>body := b, contentType := ct\<rparr>"
      and "spec_strategy c req = PlainJSON \<longrightarrow> req' = req"
proof -
  from Run_shape [of E c ctx req resp]
  consider (a) err where "\<forall>l. err \<noteq> GraphQLErrors l" "Run E c ctx req resp = failed err req resp"
    | (b) req' r0 where
        "if spec_strategy c req = PlainJSON then req' = req
         else \<exists>b. req' = req\<lparr>body := b, contentType := client_content_type E (spec_strategy c req)\<rparr>"
        "(\<exists>err. Run E c ctx req resp = failed (External err) req' resp) \<or>
         (Headers r0 = Map.empty \<and> wire_format (Body r0) = Some (spec_strategy c req) \<and>
          Run E c ctx req resp =
            exchange E c (client_content_type E (spec_strategy c req)) r0 req' resp)"
    by blast
  then show thesis
  proof cases
    case a
    then show thesis using failed [of err req] staged_self [of req] by blast
  next
    case b
    have st: "\<exists>b ct. req' = req\<lparr>body := b, contentType := ct\<rparr>"
      using b(1) staged_self [of req] by (cases "spec_strategy c req = PlainJSON") auto
    have pl: "spec_strategy c req = PlainJSON \<longrightarrow> req' = req"
      using b(1) by simp
    from b(2) show thesis
    proof
      assume "\<exists>err. Run E c ctx req resp = failed (External err) req' resp"
      then obtain err where "Run E c ctx req resp = failed (External err) req' resp" by blast
      then show thesis using failed [of "External err" req'] st pl by simp
    next
      assume "Headers r0 = Map.empty \<and> wire_format (Body r0) = Some (spec_strategy c req) \<and>
          Run E c ctx req resp =
            exchange E c (client_content_type E (spec_strategy c req)) r0 req' resp"
      then show thesis using exchange [of r0 req'] st pl by simp
    qed
  qed
qed

text \<open>
  A request is handed to the transport on exactly the calls that \<open>reaches_transport\<close>
  describes in terms of the inputs.
\<close>

lemma write_files_ok_iff:
  "(\<exists>w'. (write_files fs w :: 'v error + Writer) = Inr w') \<longleftrightarrow> list_all readable fs"
  by (induction fs arbitrary: w)
     (auto simp: readable_def Writer_CreateFormFile_def io_Copy_def split: sum.splits Reader.splits)

lemma write_spec_files_ok_iff:
  "(\<exists>w'. (write_spec_files fs w :: 'v error + Writer) = Inr w') \<longleftrightarrow> list_all readable fs"
  by (induction fs arbitrary: w)
     (auto simp: readable_def Writer_CreateFormFile_def io_Copy_def WriteField_Inr
        split: sum.splits Reader.splits)

lemma write_files_Inl:
  fixes e :: "'v error"
  shows "write_files fs w = Inl e \<Longrightarrow> \<not> list_all readable fs"
  using write_files_ok_iff [where ?'v = 'v, of fs w] by auto

lemma write_files_Inr:
  fixes w' :: Writer
  shows "(write_files fs w :: 'v error + Writer) = Inr w' \<Longrightarrow> list_all readable fs"
  using write_files_ok_iff [where ?'v = 'v, of fs w] by auto

lemma write_spec_files_Inl:
  fixes e :: "'v error"
  shows "write_spec_files fs w = Inl e \<Longrightarrow> \<not> list_all readable fs"
  using write_spec_files_ok_iff [where ?'v = 'v, of fs w] by auto

lemma write_spec_files_Inr:
  fixes w' :: Writer
  shows "(write_spec_files fs w :: 'v error + Writer) = Inr w' \<Longrightarrow> list_all readable fs"
  using write_spec_files_ok_iff [where ?'v = 'v, of fs w] by auto

lemma sent_makeRequest:
  "sent (makeRequest E c req resp) \<noteq> [] \<longleftrightarrow> url_Parse E (endpoint c) = None"
  by (auto simp: makeRequest_def http_NewRequest_def sent_failed sent_exchange split: option.splits)

lemma sent_runWithJSON:
  "sent (runWithJSON E c req resp) \<noteq> [] \<longleftrightarrow>
     url_Parse E (endpoint c) = None
     \<and> \<not> isl (json_Marshal E
          (GStruct [(''query'', GString (q req)), (''variables'', vars_gval (vars req))]))"
  by (auto simp: runWithJSON_def http_NewRequest_def json_Encode_def sent_failed sent_exchange
      split: option.splits sum.splits)

lemma sent_runWithPostFields:
  "sent (runWithPostFields E c req resp) \<noteq> [] \<longleftrightarrow>
     url_Parse E (endpoint c) = None
     \<and> (len_vars req = 0 \<or> \<not> isl (json_Marshal E (vars_gval (vars req))))
     \<and> list_all readable (files req)"
  by (auto simp: runWithPostFields_def write_variables_def WriteField_Inr Writer_CreateFormField_def
      Writer_Close_def json_Encode_def sent_makeRequest sent_failed
      split: sum.splits if_splits dest: write_files_Inl write_files_Inr)

lemma sent_runMultipartRequestSpec:
  "sent (runMultipartRequestSpec E c req resp) \<noteq> [] \<longleftrightarrow>
     url_Parse E (endpoint c) = None
     \<and> len_vars req = 0
     \<and> \<not> isl (json_Marshal E (operations_gval (Operations (fillMultipartRequestSpecQuery req))))
     \<and> \<not> isl (json_Marshal E (map_gval (Map (fillMultipartRequestSpecQuery req))))
     \<and> list_all readable (files req)"
  by (auto simp: runMultipartRequestSpec_def WriteField_Inr Let_def
      Writer_Close_def sent_makeRequest sent_failed
      split: sum.splits if_splits dest: write_spec_files_Inl write_spec_files_Inr)

lemma Run_sends_iff:
  "sent (Run E c ctx req resp) \<noteq> [] \<longleftrightarrow> reaches_transport E c ctx req"
proof (cases "ctx = Live \<and> \<not> (files req \<noteq> [] \<and> \<not> useMultipartForm c \<and> \<not> useMultipartRequestSpec c)")
  case True
  then have "Run E c ctx req resp = run_strategy (spec_strategy c req) E c req resp"
    using Run_dispatch [of req c E resp] by simp
  then show ?thesis
    using True
    by (cases "spec_strategy c req")
       (auto simp: reaches_transport_def sent_runWithJSON sent_runWithPostFields
          sent_runMultipartRequestSpec)
next
  case False
  then have "sent (Run E c ctx req resp) = []"
    by (cases ctx) (auto simp: Run_Done Run_no_mode sent_failed)
  then show ?thesis using False by (auto simp: reaches_transport_def)
qed

lemma Run_reaches:
  fixes req :: "'v Request"
  assumes "reaches_transport E c ctx req"
  obtains req' r0 where
      "Run E c ctx req resp = exchange E c (client_content_type E (spec_strategy c req)) r0 req' resp"
      and "sent (Run E c ctx req resp) = [set_headers c (client_content_type E (spec_strategy c req)) req' r0]"
      and "wire_format (Body r0) = Some (spec_strategy c req)"
      and "Header req' = Header req"
proof (cases rule: Run_cases [of E c ctx req resp])
  case (failed err req')
  then show ?thesis using assms Run_sends_iff [of E c ctx req resp] by (simp add: sent_failed)
next
  case (exchange req' r0)
  have "Header req' = Header req" using exchange(4) by auto
  then show ?thesis using that [of r0 req'] exchange by (simp add: sent_exchange)
qed

lemmas reach_defs = reaches_transport_def spec_strategy_def readable_def
  fillMultipartRequestSpecQuery_def Request_Files_def Request_Query_def len_vars_def

text \<open>
  C2 (as amended). For every call of \<open>Run\<close> that passes the pre-flight checks (the context
  is not already cancelled, and the request does not carry files while neither multipart
  mode is enabled), exactly one strategy runs, the one the priority rule selects from the
  configuration and the presence of files: \<open>Run\<close> is that strategy's function, it hands at
  most one request to the transport, and the body of that request has the wire format of
  the selected strategy; when the call reaches the transport, exactly one request is
  sent, in that format. In particular upload-spec mode with no files is the plain JSON
  strategy. A call that fails a pre-flight check runs no strategy: its result is the
  pre-flight error alone, the request and the target are untouched and nothing is sent,
  whatever the encoder, the readers and the transport would do.
\<close>

theorem Run_selects_one_strategy:
  fixes req :: "'v Request"
  shows
  "(ctx = Live \<and> \<not> (files req \<noteq> [] \<and> \<not> useMultipartForm c \<and> \<not> useMultipartRequestSpec c)
      \<longrightarrow> Run E c ctx req resp = run_strategy (spec_strategy c req) E c req resp
        \<and> length (sent (Run E c ctx req resp)) \<le> 1
        \<and> (\<forall>r \<in> set (sent (Run E c ctx req resp)). wire_format (Body r) = Some (spec_strategy c req))
        \<and> (useMultipartRequestSpec c \<and> \<not> useMultipartForm c \<and> files req = []
             \<longrightarrow> Run E c ctx req resp = runWithJSON E c req resp))
   \<and> (reaches_transport E c ctx req
      \<longrightarrow> (\<exists>r. sent (Run E c ctx req resp) = [r]
             \<and> wire_format (Body r) = Some (spec_strategy c req)))
   \<and> (\<not> (ctx = Live \<and> \<not> (files req \<noteq> [] \<and> \<not> useMultipartForm c \<and> \<not> useMultipartRequestSpec c))
      \<longrightarrow> Run E c ctx req resp =
            \<lparr>outcome = Returns (Some (case ctx of
                           Done e \<Rightarrow> External e
                         | Live \<Rightarrow> New ''cannot send files with PostFields option'')),
             req_after = req, resp_after = resp, sent = []\<rparr>)"
proof (intro conjI impI)
  assume pass: "ctx = Live \<and> \<not> (files req \<noteq> [] \<and> \<not> useMultipartForm c \<and> \<not> useMultipartRequestSpec c)"
  show d: "Run E c ctx req resp = run_strategy (spec_strategy c req) E c req resp"
    using pass Run_dispatch [of req c E resp] by simp
  show "length (sent (Run E c ctx req resp)) \<le> 1"
    by (cases rule: Run_cases [of E c ctx req resp]) (simp_all add: sent_failed sent_exchange)
  show "\<forall>r \<in> set (sent (Run E c ctx req resp)). wire_format (Body r) = Some (spec_strategy c req)"
    by (cases rule: Run_cases [of E c ctx req resp])
       (simp_all add: sent_failed sent_exchange Body_set_headers)
  assume "useMultipartRequestSpec c \<and> \<not> useMultipartForm c \<and> files req = []"
  then show "Run E c ctx req resp = runWithJSON E c req resp"
    using d by (simp add: spec_strategy_def)
next
  assume "reaches_transport E c ctx req"
  then obtain req' :: "'v Request" and r0 where
    "sent (Run E c ctx req resp) =
       [set_headers c (client_content_type E (spec_strategy c req)) req' r0]"
    and "wire_format (Body r0) = Some (spec_strategy c req)"
    by (rule Run_reaches [where resp = resp]) blast
  then show "\<exists>r. sent (Run E c ctx req resp) = [r]
             \<and> wire_format (Body r) = Some (spec_strategy c req)"
    by (simp add: Body_set_headers)
next
  assume "\<not> (ctx = Live \<and> \<not> (files req \<noteq> [] \<and> \<not> useMultipartForm c \<and> \<not> useMultipartRequestSpec c))"
  then show "Run E c ctx req resp =
            \<lparr>outcome = Returns (Some (case ctx of
                           Done e \<Rightarrow> External e
                         | Live \<Rightarrow> New ''cannot send files with PostFields option'')),
             req_after = req, resp_after = resp, sent = []\<rparr>"
    by (cases ctx) (auto simp: Run_Done Run_no_mode failed_def)
qed

theorem Run_selects_one_strategy_witness:
  "spec_strategy (example_client 200 ''{data:{x:1}}'' [UseMultipartRequestSpec]) two_files = UploadSpecMode
   \<and> Run example_env (example_client 200 ''{data:{x:1}}'' [UseMultipartRequestSpec]) Live two_files ''old''
       = runMultipartRequestSpec example_env
           (example_client 200 ''{data:{x:1}}'' [UseMultipartRequestSpec]) two_files ''old''
   \<and> files query_only = []
   \<and> Run example_env (example_client 200 ''{data:{x:1}}'' [UseMultipartRequestSpec]) Live query_only ''old''
       = runWithJSON example_env
           (example_client 200 ''{data:{x:1}}'' [UseMultipartRequestSpec]) query_only ''old''
   \<and> reaches_transport example_env (example_client 200 ''{data:{x:1}}'' [UseMultipartForm]) Live one_file
   \<and> length (sent (Run example_env (example_client 200 ''{data:{x:1}}'' [UseMultipartForm]) Live
                       one_file ''old'')) = 1
   \<and> wire_format (Body (hd (sent (Run example_env (example_client 200 ''{data:{x:1}}'' [UseMultipartForm])
                                      Live one_file ''old'')))) = Some MultipartFormMode
   \<and> Run example_env (example_client 200 ''{data:{x:1}}'' [UseMultipartForm]) (Done ''context canceled'')
         one_file ''old''
       = \<lparr>outcome = Returns (Some (External ''context canceled'')),
          req_after = one_file, resp_after = ''old'', sent = []\<rparr>"
proof -
  let ?c = "example_client 200 ''{data:{x:1}}'' [UseMultipartRequestSpec]"
  have c: "useMultipartRequestSpec ?c \<and> \<not> useMultipartForm ?c" by (simp add: example_defs)
  have f: "files query_only = []" "files two_files \<noteq> []" by (simp_all add: example_defs)
  have s: "spec_strategy ?c two_files = UploadSpecMode"
    using c f by (simp add: spec_strategy_def)
  from Run_selects_one_strategy [of Live two_files ?c example_env "''old''"] c
  have a: "Run example_env ?c Live two_files ''old'' = runMultipartRequestSpec example_env ?c two_files ''old''"
    by (simp only: s run_strategy.simps) blast
  from Run_selects_one_strategy [of Live query_only ?c example_env "''old''"] c f(1)
  have b: "Run example_env ?c Live query_only ''old'' = runWithJSON example_env ?c query_only ''old''"
    by blast
  let ?m = "example_client 200 ''{data:{x:1}}'' [UseMultipartForm]"
  have h: "reaches_transport example_env ?m Live one_file"
    by (simp add: reach_defs example_defs)
  have sm: "spec_strategy ?m one_file = MultipartFormMode"
    by (simp add: spec_strategy_def example_defs)
  from Run_selects_one_strategy [of Live one_file ?m example_env "''old''"] h sm
  obtain r where "sent (Run example_env ?m Live one_file ''old'') = [r]"
    and "wire_format (Body r) = Some MultipartFormMode"
    by auto
  then have w: "length (sent (Run example_env ?m Live one_file ''old'')) = 1
    \<and> wire_format (Body (hd (sent (Run example_env ?m Live one_file ''old'')))) = Some MultipartFormMode"
    by simp
  from Run_selects_one_strategy [of "Done ''context canceled''" one_file ?m example_env "''old''"]
  have p: "Run example_env ?m (Done ''context canceled'') one_file ''old''
       = \<lparr>outcome = Returns (Some (External ''context canceled'')),
          req_after = one_file, resp_after = ''old'', sent = []\<rparr>"
    by simp
  from s a f(1) b h w p show ?thesis by blast
qed

text \<open>
  As stated, for every call, C2 fails: for a request with one file and a client with
  neither multipart mode, the priority rule selects plain JSON, and the plain JSON
  strategy would send the request and succeed; \<open>Run\<close> instead returns the configuration
  error and sends nothing.
\<close>

theorem Run_selects_one_strategy_counterexample:
  "spec_strategy (example_client 200 ''{data:{x:1}}'' []) one_file = PlainJSON
   \<and> sent (Run example_env (example_client 200 ''{data:{x:1}}'' []) Live one_file ''old'') = []
   \<and> outcome (Run example_env (example_client 200 ''{data:{x:1}}'' []) Live one_file ''old'')
       = Returns (Some (New ''cannot send files with PostFields option''))
   \<and> sent (run_strategy PlainJSON example_env (example_client 200 ''{data:{x:1}}'' []) one_file ''old'') \<noteq> []
   \<and> outcome (run_strategy PlainJSON example_env (example_client 200 ''{data:{x:1}}'' []) one_file ''old'')
       = Returns None"
  by (simp add: run_defs example_defs spec_strategy_def)

text \<open>
  C4 (as amended). For every call of \<open>Run\<close> on a request with at least one file when
  neither multipart mode is enabled, no request reaches the transport, and \<open>Run\<close> returns
  the configuration error, unless the context is already cancelled: then it returns the
  context's error.
\<close>

theorem Run_files_without_mode:
  assumes "files req \<noteq> []" and "\<not> useMultipartForm c" and "\<not> useMultipartRequestSpec c"
  shows "sent (Run E c ctx req resp) = []
       \<and> outcome (Run E c ctx req resp) =
           Returns (Some (case ctx of
                            Live \<Rightarrow> New ''cannot send files with PostFields option''
                          | Done e \<Rightarrow> External e))"
  using assms by (cases ctx) (simp_all add: Run_Done Run_no_mode sent_failed outcome_failed)

theorem Run_files_without_mode_witness:
  "files one_file \<noteq> []
   \<and> sent (Run example_env (example_client 200 ''{data:{x:1}}'' []) Live one_file ''old'') = []
   \<and> outcome (Run example_env (example_client 200 ''{data:{x:1}}'' []) Live one_file ''old'')
       = Returns (Some (New ''cannot send files with PostFields option''))"
proof -
  let ?c = "example_client 200 ''{data:{x:1}}'' []"
  have h1: "files one_file \<noteq> []" by (simp add: example_defs)
  have h2: "\<not> useMultipartForm ?c" by (simp add: example_defs)
  have h3: "\<not> useMultipartRequestSpec ?c" by (simp add: example_defs)
  from Run_files_without_mode [OF h1 h2 h3, of example_env Live "''old''"] h1
  show ?thesis by simp
qed

text \<open>
  As stated, for every call, C4 fails: with one file, neither mode and a context that is
  already cancelled, \<open>Run\<close> returns the context's error, not the configuration error.
\<close>

theorem Run_files_without_mode_counterexample:
  "files one_file \<noteq> []
   \<and> \<not> useMultipartForm (example_client 200 ''{data:{x:1}}'' [])
   \<and> \<not> useMultipartRequestSpec (example_client 200 ''{data:{x:1}}'' [])
   \<and> outcome (Run example_env (example_client 200 ''{data:{x:1}}'' []) (Done ''context canceled'')
                one_file ''old'')
       = Returns (Some (External ''context canceled''))"
  by (simp add: run_defs example_defs)

text \<open>
  C5 (as amended). For every call of \<open>Run\<close> under upload-spec mode, multipart-form mode
  not enabled, with at least one variable and at least one file, no request reaches the
  transport, and \<open>Run\<close> returns the configuration error, unless the context is already
  cancelled: then it returns the context's error.
\<close>

theorem Run_upload_spec_with_variables:
  assumes "useMultipartRequestSpec c" and "\<not> useMultipartForm c"
    and "len_vars req > 0" and "files req \<noteq> []"
  shows "sent (Run E c ctx req resp) = []
       \<and> outcome (Run E c ctx req resp) =
           Returns (Some (case ctx of
              Live \<Rightarrow> New (''variables doesn'' @ [char_of (39 :: nat)]
                            @ ''t supported due to the multipart request spec ''
                            @ ''https://github.com/jaydenseric/graphql-multipart-request-spec/issues/22'')
            | Done e \<Rightarrow> External e))"
proof (cases ctx)
  case Live
  have "Run E c Live req resp = runMultipartRequestSpec E c req resp"
    using assms by (simp add: Run_dispatch spec_strategy_def)
  then show ?thesis
    using assms(3) Live by (simp add: runMultipartRequestSpec_def sent_failed outcome_failed)
next
  case (Done e)
  then show ?thesis by (simp add: Run_Done sent_failed outcome_failed)
qed

theorem Run_upload_spec_with_variables_witness:
  "len_vars one_file_with_var > 0 \<and> files one_file_with_var \<noteq> []
   \<and> sent (Run example_env (example_client 200 ''{data:{x:1}}'' [UseMultipartRequestSpec]) Live
             one_file_with_var ''old'') = []
   \<and> outcome (Run example_env (example_client 200 ''{data:{x:1}}'' [UseMultipartRequestSpec]) Live
             one_file_with_var ''old'')
       = Returns (Some (New (''variables doesn'' @ [char_of (39 :: nat)]
                             @ ''t supported due to the multipart request spec ''
                             @ ''https://github.com/jaydenseric/graphql-multipart-request-spec/issues/22'')))"
proof -
  let ?c = "example_client 200 ''{data:{x:1}}'' [UseMultipartRequestSpec]"
  have h1: "useMultipartRequestSpec ?c" by (simp add: example_defs)
  have h2: "\<not> useMultipartForm ?c" by (simp add: example_defs)
  have h3: "len_vars one_file_with_var > 0" by (simp add: example_defs len_vars_def)
  have h4: "files one_file_with_var \<noteq> []" by (simp add: example_defs)
  from Run_upload_spec_with_variables [OF h1 h2 h3 h4, of example_env Live "''old''"] h3 h4
  show ?thesis by simp
qed

text \<open>
  As stated, for every call, C5 fails: under upload-spec mode with a variable, a file and
  a context that is already cancelled, \<open>Run\<close> returns the context's error.
\<close>

theorem Run_upload_spec_with_variables_counterexample:
  "useMultipartRequestSpec (example_client 200 ''{data:{x:1}}'' [UseMultipartRequestSpec])
   \<and> \<not> useMultipartForm (example_client 200 ''{data:{x:1}}'' [UseMultipartRequestSpec])
   \<and> len_vars one_file_with_var > 0 \<and> files one_file_with_var \<noteq> []
   \<and> outcome (Run example_env (example_client 200 ''{data:{x:1}}'' [UseMultipartRequestSpec])
                (Done ''context canceled'') one_file_with_var ''old'')
       = Returns (Some (External ''context canceled''))"
  by (simp add: run_defs example_defs)

subsection \<open>Decoding the response\<close>

text \<open>
  C1. On every call that reaches the transport, \<open>Run\<close> hands it exactly one request; and
  when the transport answers that request, the body is read, and decoding it gives no
  error and a non-empty error list, then \<open>Run\<close> returns that error list as its error,
  whatever the status code and the data, and the caller's target is as the decoder left
  it. This holds under each of the three strategies.
\<close>

theorem Run_returns_GraphQL_errors:
  assumes "reaches_transport E c ctx req"
  shows "\<exists>r. sent (Run E c ctx req resp) = [r]
     \<and> (\<forall>res buf errs.
           httpClient c r = Inr res \<and> ResBody res = Inr buf
           \<and> decode_err (json_Decode E buf resp) = None
           \<and> gr_Errors (json_Decode E buf resp) = Some errs \<and> errs \<noteq> []
           \<longrightarrow> outcome (Run E c ctx req resp) = Returns (Some (GraphQLErrors errs))
               \<and> resp_after (Run E c ctx req resp) = gr_Data (json_Decode E buf resp))"
proof -
  from assms obtain req' r0 where
    run: "Run E c ctx req resp =
            exchange E c (client_content_type E (spec_strategy c req)) r0 req' resp"
    and s: "sent (Run E c ctx req resp) =
            [set_headers c (client_content_type E (spec_strategy c req)) req' r0]"
    by (rule Run_reaches [where resp = resp])
  let ?r = "set_headers c (client_content_type E (spec_strategy c req)) req' r0"
  have "\<forall>res buf errs.
           httpClient c ?r = Inr res \<and> ResBody res = Inr buf
           \<and> decode_err (json_Decode E buf resp) = None
           \<and> gr_Errors (json_Decode E buf resp) = Some errs \<and> errs \<noteq> []
           \<longrightarrow> outcome (Run E c ctx req resp) = Returns (Some (GraphQLErrors errs))
               \<and> resp_after (Run E c ctx req resp) = gr_Data (json_Decode E buf resp)"
  proof (intro allI impI)
    fix res buf errs
    assume h: "httpClient c ?r = Inr res \<and> ResBody res = Inr buf
           \<and> decode_err (json_Decode E buf resp) = None
           \<and> gr_Errors (json_Decode E buf resp) = Some errs \<and> errs \<noteq> []"
    then have "httpClient c ?r = Inr res" and "ResBody res = Inr buf" by simp_all
    from exchange_after_read [OF this, of E resp] h run
    show "outcome (Run E c ctx req resp) = Returns (Some (GraphQLErrors errs))
               \<and> resp_after (Run E c ctx req resp) = gr_Data (json_Decode E buf resp)"
      by (simp add: Let_def)
  qed
  then show ?thesis using s by blast
qed

theorem Run_returns_GraphQL_errors_witness:
  "reaches_transport example_env
     (example_client 200 ''{data:{x:1},errors:[{message:bad}]}'' []) Live query_only
   \<and> outcome (Run example_env (example_client 200 ''{data:{x:1},errors:[{message:bad}]}'' []) Live
               query_only ''old'') = Returns (Some (GraphQLErrors [bad]))
   \<and> resp_after (Run example_env (example_client 200 ''{data:{x:1},errors:[{message:bad}]}'' []) Live
               query_only ''old'') = ''x=1''
   \<and> reaches_transport example_env
     (example_client 200 ''{data:{x:1},errors:[{message:bad}]}'' [UseMultipartForm]) Live one_file
   \<and> outcome (Run example_env
               (example_client 200 ''{data:{x:1},errors:[{message:bad}]}'' [UseMultipartForm]) Live
               one_file ''old'') = Returns (Some (GraphQLErrors [bad]))
   \<and> reaches_transport example_env
     (example_client 200 ''{data:{x:1},errors:[{message:bad}]}'' [UseMultipartRequestSpec]) Live two_files
   \<and> outcome (Run example_env
               (example_client 200 ''{data:{x:1},errors:[{message:bad}]}'' [UseMultipartRequestSpec]) Live
               two_files ''old'') = Returns (Some (GraphQLErrors [bad]))
   \<and> error_text (GraphQLErrors [bad]) = ''graphql: bad''"
proof -
  let ?b = "''{data:{x:1},errors:[{message:bad}]}''"
  let ?res = "\<lparr>StatusCode = 200, ResBody = Inr ?b\<rparr>"
  have d: "decode_err (json_Decode example_env ?b ''old'') = None
     \<and> gr_Errors (json_Decode example_env ?b ''old'') = Some [bad] \<and> [bad] \<noteq> []"
    and g: "gr_Data (json_Decode example_env ?b ''old'') = ''x=1''"
    by (simp_all add: example_env_def example_decode_def)
  have body: "ResBody ?res = Inr ?b" by simp
  have t: "error_text (GraphQLErrors [bad]) = ''graphql: bad''"
    by (simp add: Errors_Error_def bad_def)

  let ?c1 = "example_client 200 ?b []"
  have h1: "reaches_transport example_env ?c1 Live query_only"
    by (simp add: reach_defs example_defs)
  from Run_returns_GraphQL_errors [OF h1, of "''old''"] obtain r1 where
    p1: "\<forall>res buf errs.
           httpClient ?c1 r1 = Inr res \<and> ResBody res = Inr buf
           \<and> decode_err (json_Decode example_env buf ''old'') = None
           \<and> gr_Errors (json_Decode example_env buf ''old'') = Some errs \<and> errs \<noteq> []
           \<longrightarrow> outcome (Run example_env ?c1 Live query_only ''old'') = Returns (Some (GraphQLErrors errs))
               \<and> resp_after (Run example_env ?c1 Live query_only ''old'')
                   = gr_Data (json_Decode example_env buf ''old'')"
    by blast
  have "httpClient ?c1 r1 = Inr ?res" by (simp add: example_defs)
  with p1 [rule_format, of ?res ?b "[bad]"] body d g
  have a1: "outcome (Run example_env ?c1 Live query_only ''old'') = Returns (Some (GraphQLErrors [bad]))
     \<and> resp_after (Run example_env ?c1 Live query_only ''old'') = ''x=1''"
    by simp

  let ?c2 = "example_client 200 ?b [UseMultipartForm]"
  have h2: "reaches_transport example_env ?c2 Live one_file"
    by (simp add: reach_defs example_defs)
  from Run_returns_GraphQL_errors [OF h2, of "''old''"] obtain r2 where
    p2: "\<forall>res buf errs.
           httpClient ?c2 r2 = Inr res \<and> ResBody res = Inr buf
           \<and> decode_err (json_Decode example_env buf ''old'') = None
           \<and> gr_Errors (json_Decode example_env buf ''old'') = Some errs \<and> errs \<noteq> []
           \<longrightarrow> outcome (Run example_env ?c2 Live one_file ''old'') = Returns (Some (GraphQLErrors errs))
               \<and> resp_after (Run example_env ?c2 Live one_file ''old'')
                   = gr_Data (json_Decode example_env buf ''old'')"
    by blast
  have "httpClient ?c2 r2 = Inr ?res" by (simp add: example_defs)
  with p2 [rule_format, of ?res ?b "[bad]"] body d
  have a2: "outcome (Run example_env ?c2 Live one_file ''old'') = Returns (Some (GraphQLErrors [bad]))"
    by simp

  let ?c3 = "example_client 200 ?b [UseMultipartRequestSpec]"
  have h3: "reaches_transport example_env ?c3 Live two_files"
    by (simp add: reach_defs example_defs)
  from Run_returns_GraphQL_errors [OF h3, of "''old''"] obtain r3 where
    p3: "\<forall>res buf errs.
           httpClient ?c3 r3 = Inr res \<and> ResBody res = Inr buf
           \<and> decode_err (json_Decode example_env buf ''old'') = None
           \<and> gr_Errors (json_Decode example_env buf ''old'') = Some errs \<and> errs \<noteq> []
           \<longrightarrow> outcome (Run example_env ?c3 Live two_files ''old'') = Returns (Some (GraphQLErrors errs))
               \<and> resp_after (Run example_env ?c3 Live two_files ''old'')
                   = gr_Data (json_Decode example_env buf ''old'')"
    by blast
  have "httpClient ?c3 r3 = Inr ?res" by (simp add: example_defs)
  with p3 [rule_format, of ?res ?b "[bad]"] body d
  have a3: "outcome (Run example_env ?c3 Live two_files ''old'') = Returns (Some (GraphQLErrors [bad]))"
    by simp

  from h1 a1 h2 a2 h3 a3 t show ?thesis by blast
qed

text \<open>
  C6 (as amended). On every call that reaches the transport, \<open>Run\<close> hands it exactly one
  request; and when the transport answers that request, the body is read, and decoding it
  fails, then \<open>Run\<close> returns the non-200-status error exactly when the status code is not
  200, and the wrapped decode error when it is 200. The non-200-status error is made of a
  fixed text and the status code alone; the body is not part of it. This holds under
  each of the three strategies.
\<close>

theorem Run_decode_failure:
  assumes "reaches_transport E c ctx req"
  shows "\<exists>r. sent (Run E c ctx req resp) = [r]
     \<and> (\<forall>res buf err.
           httpClient c r = Inr res \<and> ResBody res = Inr buf
           \<and> decode_err (json_Decode E buf resp) = Some err
           \<longrightarrow> outcome (Run E c ctx req resp) =
                 Returns (Some (if StatusCode res \<noteq> 200
                                then Errorf (''graphql: server returned a non-200 status code: ''
                                             @ Itoa (StatusCode res))
                                else Wrap (External err) ''decoding response'')))"
proof -
  from assms obtain req' r0 where
    run: "Run E c ctx req resp =
            exchange E c (client_content_type E (spec_strategy c req)) r0 req' resp"
    and s: "sent (Run E c ctx req resp) =
            [set_headers c (client_content_type E (spec_strategy c req)) req' r0]"
    by (rule Run_reaches [where resp = resp])
  let ?r = "set_headers c (client_content_type E (spec_strategy c req)) req' r0"
  have "\<forall>res buf err.
           httpClient c ?r = Inr res \<and> ResBody res = Inr buf
           \<and> decode_err (json_Decode E buf resp) = Some err
           \<longrightarrow> outcome (Run E c ctx req resp) =
                 Returns (Some (if StatusCode res \<noteq> 200
                                then Errorf (''graphql: server returned a non-200 status code: ''
                                             @ Itoa (StatusCode res))
                                else Wrap (External err) ''decoding response''))"
  proof (intro allI impI)
    fix res buf err
    assume h: "httpClient c ?r = Inr res \<and> ResBody res = Inr buf
           \<and> decode_err (json_Decode E buf resp) = Some err"
    then have "httpClient c ?r = Inr res" and "ResBody res = Inr buf" by simp_all
    from exchange_after_read [OF this, of E resp] h run
    show "outcome (Run E c ctx req resp) =
                 Returns (Some (if StatusCode res \<noteq> 200
                                then Errorf (''graphql: server returned a non-200 status code: ''
                                             @ Itoa (StatusCode res))
                                else Wrap (External err) ''decoding response''))"
      by (simp add: Let_def)
  qed
  then show ?thesis using s by blast
qed

theorem Run_decode_failure_witness:
  "reaches_transport example_env (example_client 500 ''<html>'' []) Live query_only
   \<and> outcome (Run example_env (example_client 500 ''<html>'' []) Live query_only ''old'')
       = Returns (Some (Errorf ''graphql: server returned a non-200 status code: 500''))
   \<and> reaches_transport example_env (example_client 500 ''<html>'' [UseMultipartForm]) Live one_file
   \<and> outcome (Run example_env (example_client 500 ''<html>'' [UseMultipartForm]) Live one_file ''old'')
       = Returns (Some (Errorf ''graphql: server returned a non-200 status code: 500''))
   \<and> reaches_transport example_env (example_client 200 ''<html>'' [UseMultipartRequestSpec]) Live two_files
   \<and> outcome (Run example_env (example_client 200 ''<html>'' [UseMultipartRequestSpec]) Live
                two_files ''old'')
       = Returns (Some (Wrap (External ''invalid character'') ''decoding response''))"
proof -
  have d: "decode_err (json_Decode example_env ''<html>'' ''old'') = Some ''invalid character''"
    by (simp add: example_env_def example_decode_def)

  let ?c1 = "example_client 500 ''<html>'' []"
  let ?res1 = "\<lparr>StatusCode = 500, ResBody = Inr ''<html>''\<rparr>"
  have h1: "reaches_transport example_env ?c1 Live query_only"
    by (simp add: reach_defs example_defs)
  from Run_decode_failure [OF h1, of "''old''"] obtain r1 where
    p1: "\<forall>res buf err.
           httpClient ?c1 r1 = Inr res \<and> ResBody res = Inr buf
           \<and> decode_err (json_Decode example_env buf ''old'') = Some err
           \<longrightarrow> outcome (Run example_env ?c1 Live query_only ''old'') =
                 Returns (Some (if StatusCode res \<noteq> 200
                                then Errorf (''graphql: server returned a non-200 status code: ''
                                             @ Itoa (StatusCode res))
                                else Wrap (External err) ''decoding response''))"
    by blast
  have "httpClient ?c1 r1 = Inr ?res1" by (simp add: example_defs)
  with p1 [rule_format, of ?res1 "''<html>''" "''invalid character''"] d
  have a1: "outcome (Run example_env ?c1 Live query_only ''old'')
       = Returns (Some (Errorf ''graphql: server returned a non-200 status code: 500''))"
    by (simp add: Itoa_examples)

  let ?c2 = "example_client 500 ''<html>'' [UseMultipartForm]"
  have h2: "reaches_transport example_env ?c2 Live one_file"
    by (simp add: reach_defs example_defs)
  from Run_decode_failure [OF h2, of "''old''"] obtain r2 where
    p2: "\<forall>res buf err.
           httpClient ?c2 r2 = Inr res \<and> ResBody res = Inr buf
           \<and> decode_err (json_Decode example_env buf ''old'') = Some err
           \<longrightarrow> outcome (Run example_env ?c2 Live one_file ''old'') =
                 Returns (Some (if StatusCode res \<noteq> 200
                                then Errorf (''graphql: server returned a non-200 status code: ''
                                             @ Itoa (StatusCode res))
                                else Wrap (External err) ''decoding response''))"
    by blast
  have "httpClient ?c2 r2 = Inr ?res1" by (simp add: example_defs)
  with p2 [rule_format, of ?res1 "''<html>''" "''invalid character''"] d
  have a2: "outcome (Run example_env ?c2 Live one_file ''old'')
       = Returns (Some (Errorf ''graphql: server returned a non-200 status code: 500''))"
    by (simp add: Itoa_examples)

  let ?c3 = "example_client 200 ''<html>'' [UseMultipartRequestSpec]"
  let ?res3 = "\<lparr>StatusCode = 200, ResBody = Inr ''<html>''\<rparr>"
  have h3: "reaches_transport example_env ?c3 Live two_files"
    by (simp add: reach_defs example_defs)
  from Run_decode_failure [OF h3, of "''old''"] obtain r3 where
    p3: "\<forall>res buf err.
           httpClient ?c3 r3 = Inr res \<and> ResBody res = Inr buf
           \<and> decode_err (json_Decode example_env buf ''old'') = Some err
           \<longrightarrow> outcome (Run example_env ?c3 Live two_files ''old'') =
                 Returns (Some (if StatusCode res \<noteq> 200
                                then Errorf (''graphql: server returned a non-200 status code: ''
                                             @ Itoa (StatusCode res))
                                else Wrap (External err) ''decoding response''))"
    by blast
  have "httpClient ?c3 r3 = Inr ?res3" by (simp add: example_defs)
  with p3 [rule_format, of ?res3 "''<html>''" "''invalid character''"] d
  have a3: "outcome (Run example_env ?c3 Live two_files ''old'')
       = Returns (Some (Wrap (External ''invalid character'') ''decoding response''))"
    by simp

  from h1 a1 h2 a2 h3 a3 show ?thesis by blast
qed

text \<open>
  As stated, with the non-200-status error exactly for a status outside 200 to 299, C6
  fails: a response with status 201 and a body that is not JSON yields the
  non-200-status error, not the decode error.
\<close>

theorem Run_decode_failure_counterexample:
  "(200 \<le> (201 :: int) \<and> (201 :: int) < 300)
   \<and> decode_err (json_Decode example_env ''<html>'' ''old'') = Some ''invalid character''
   \<and> outcome (Run example_env (example_client 201 ''<html>'' []) Live query_only ''old'')
       = Returns (Some (Errorf ''graphql: server returned a non-200 status code: 201''))
   \<and> outcome (Run example_env (example_client 201 ''<html>'' [UseMultipartForm]) Live one_file ''old'')
       = Returns (Some (Errorf ''graphql: server returned a non-200 status code: 201''))"
  by (simp add: run_defs example_defs Itoa_examples write_variables_def WriteField_Inr
      Writer_CreateFormFile_def io_Copy_def part_Write_snoc Writer_Close_def multipart_NewWriter_def)

subsection \<open>Headers of the outgoing request\<close>

lemma Header_Add_first:
  "h k = Some (x # xs) \<Longrightarrow> \<exists>more. Header_Add key val h k = Some (x # more)"
  by (auto simp: Header_Add_def Let_def)

lemma add_values_first:
  "h k = Some (x # xs) \<Longrightarrow> \<exists>more. add_values key vals h k = Some (x # more)"
proof (induction vals arbitrary: h xs)
  case Nil
  then show ?case by simp
next
  case (Cons v vs)
  have "\<exists>more. Header_Add key v h k = Some (x # more)"
    using Cons.prems by (rule Header_Add_first)
  then obtain more where "Header_Add key v h k = Some (x # more)" by blast
  then have "\<exists>more'. add_values key vs (Header_Add key v h) k = Some (x # more')"
    by (rule Cons.IH)
  then show ?case by simp
qed

lemma add_headers_first:
  "h k = Some (x # xs) \<Longrightarrow> \<exists>more. add_headers hs h k = Some (x # more)"
proof (induction hs arbitrary: h xs)
  case Nil
  then show ?case by simp
next
  case (Cons kv hs)
  obtain key vals where kv: "kv = (key, vals)" by (cases kv)
  have "\<exists>more. add_values key vals h k = Some (x # more)"
    using Cons.prems by (rule add_values_first)
  then obtain more where "add_values key vals h k = Some (x # more)" by blast
  then have "\<exists>more'. add_headers hs (add_values key vals h) k = Some (x # more')"
    by (rule Cons.IH)
  then show ?case by (simp add: kv)
qed

lemma Header_Add_keeps:
  "h k = Some xs \<Longrightarrow> v \<in> set xs \<Longrightarrow> \<exists>ys. Header_Add key val h k = Some ys \<and> v \<in> set ys"
  by (auto simp: Header_Add_def Let_def)

lemma add_values_keeps:
  "h k = Some xs \<Longrightarrow> v \<in> set xs \<Longrightarrow> \<exists>ys. add_values key vals h k = Some ys \<and> v \<in> set ys"
proof (induction vals arbitrary: h xs)
  case Nil
  then show ?case by simp
next
  case (Cons val vals)
  have "\<exists>ys. Header_Add key val h k = Some ys \<and> v \<in> set ys"
    using Cons.prems by (rule Header_Add_keeps)
  then obtain ys where "Header_Add key val h k = Some ys" "v \<in> set ys" by blast
  then have "\<exists>zs. add_values key vals (Header_Add key val h) k = Some zs \<and> v \<in> set zs"
    by (rule Cons.IH)
  then show ?case by simp
qed

lemma add_headers_keeps:
  "h k = Some xs \<Longrightarrow> v \<in> set xs \<Longrightarrow> \<exists>ys. add_headers hs h k = Some ys \<and> v \<in> set ys"
proof (induction hs arbitrary: h xs)
  case Nil
  then show ?case by simp
next
  case (Cons kv hs)
  obtain key vals where kv: "kv = (key, vals)" by (cases kv)
  have "\<exists>ys. add_values key vals h k = Some ys \<and> v \<in> set ys"
    using Cons.prems by (rule add_values_keeps)
  then obtain ys where "add_values key vals h k = Some ys" "v \<in> set ys" by blast
  then have "\<exists>zs. add_headers hs (add_values key vals h) k = Some zs \<and> v \<in> set zs"
    by (rule Cons.IH)
  then show ?case by (simp add: kv)
qed

lemma Header_Add_adds:
  "\<exists>ys. Header_Add key val h (CanonicalMIMEHeaderKey key) = Some ys \<and> val \<in> set ys"
  by (simp add: Header_Add_def Let_def)

lemma add_values_adds:
  "val \<in> set vals \<Longrightarrow>
     \<exists>ys. add_values key vals h (CanonicalMIMEHeaderKey key) = Some ys \<and> val \<in> set ys"
proof (induction vals arbitrary: h)
  case Nil
  then show ?case by simp
next
  case (Cons v vs)
  show ?case
  proof (cases "val = v")
    case True
    from Header_Add_adds [of key v h] obtain ys
      where "Header_Add key v h (CanonicalMIMEHeaderKey key) = Some ys" "v \<in> set ys" by blast
    then have "\<exists>zs. add_values key vs (Header_Add key v h) (CanonicalMIMEHeaderKey key) = Some zs
        \<and> v \<in> set zs"
      by (rule add_values_keeps)
    then show ?thesis using True by simp
  next
    case False
    then have "val \<in> set vs" using Cons.prems by simp
    from Cons.IH [OF this] show ?thesis by simp
  qed
qed

lemma add_headers_adds:
  "(key, vals) \<in> set hs \<Longrightarrow> val \<in> set vals \<Longrightarrow>
     \<exists>ys. add_headers hs h (CanonicalMIMEHeaderKey key) = Some ys \<and> val \<in> set ys"
proof (induction hs arbitrary: h)
  case Nil
  then show ?case by simp
next
  case (Cons kv hs)
  obtain key' vals' where kv: "kv = (key', vals')" by (cases kv)
  show ?case
  proof (cases "(key, vals) = kv")
    case True
    from add_values_adds [OF Cons.prems(2), of key h] obtain ys
      where "add_values key vals h (CanonicalMIMEHeaderKey key) = Some ys" "val \<in> set ys" by blast
    then have "\<exists>zs. add_headers hs (add_values key vals h) (CanonicalMIMEHeaderKey key) = Some zs
        \<and> val \<in> set zs"
      by (rule add_headers_keeps)
    then show ?thesis using True kv by auto
  next
    case False
    then have "(key, vals) \<in> set hs" using Cons.prems(1) by auto
    from Cons.IH [OF this Cons.prems(2)] show ?thesis by (simp add: kv)
  qed
qed

lemma canonical_Content_Type: "CanonicalMIMEHeaderKey ''Content-Type'' = ''Content-Type''"
  by code_simp

lemma canonical_Accept: "CanonicalMIMEHeaderKey ''Accept'' = ''Accept''"
  by code_simp

lemma set_headers_client_values:
  "(\<exists>more. Headers (set_headers c ct req r0) ''Content-Type'' = Some (ct # more))
   \<and> (\<exists>more. Headers (set_headers c ct req r0) ''Accept'' = Some (''application/json; charset=utf-8'' # more))"
proof -
  let ?h = "Header_Set ''Accept'' ''application/json; charset=utf-8''
              (Header_Set ''Content-Type'' ct (Headers r0))"
  have "?h ''Content-Type'' = Some [ct]"
    by (simp add: Header_Set_def canonical_Content_Type canonical_Accept)
  then have ctype: "\<exists>more. add_headers (Header req) ?h ''Content-Type'' = Some (ct # more)"
    by (rule add_headers_first)
  have "?h ''Accept'' = Some [''application/json; charset=utf-8'']"
    by (simp add: Header_Set_def canonical_Content_Type canonical_Accept)
  then have "\<exists>more. add_headers (Header req) ?h ''Accept'' =
      Some (''application/json; charset=utf-8'' # more)"
    by (rule add_headers_first)
  then show ?thesis using ctype by (simp add: set_headers_def)
qed

lemma set_headers_custom:
  "(key, vals) \<in> set (Header req) \<Longrightarrow> val \<in> set vals \<Longrightarrow>
     \<exists>ys. Headers (set_headers c ct req r0) (CanonicalMIMEHeaderKey key) = Some ys \<and> val \<in> set ys"
  using add_headers_adds [of key vals "Header req" val] by (simp add: set_headers_def)

text \<open>
  C7. On every call that reaches the transport, \<open>Run\<close> hands it exactly one request, and
  on that request every value of every custom header of the Request is among the values
  under that header's key (in canonical form, as \<open>Header.Add\<close> stores it), and the values
  the client set for Content-Type and Accept are still the first values under their
  keys: adding custom headers appends, it never replaces. This holds under each of the
  three strategies.
\<close>

theorem Run_outgoing_headers:
  fixes req :: "'v Request"
  assumes "reaches_transport E c ctx req"
  shows "\<exists>r. sent (Run E c ctx req resp) = [r]
       \<and> (\<forall>(key, vals) \<in> set (Header req). \<forall>val \<in> set vals.
            \<exists>ys. Headers r (CanonicalMIMEHeaderKey key) = Some ys \<and> val \<in> set ys)
       \<and> (\<exists>more. Headers r ''Content-Type'' =
             Some (client_content_type E (spec_strategy c req) # more))
       \<and> (\<exists>more. Headers r ''Accept'' = Some (''application/json; charset=utf-8'' # more))"
proof -
  let ?ct = "client_content_type E (spec_strategy c req)"
  from assms obtain req' :: "'v Request" and r0 where
    s: "sent (Run E c ctx req resp) = [set_headers c ?ct req' r0]"
    and hdr: "Header req' = Header req"
    by (rule Run_reaches [where resp = resp]) blast
  let ?r = "set_headers c ?ct req' r0"
  have "\<forall>(key, vals) \<in> set (Header req). \<forall>val \<in> set vals.
            \<exists>ys. Headers ?r (CanonicalMIMEHeaderKey key) = Some ys \<and> val \<in> set ys"
    using set_headers_custom [of _ _ req' _ c ?ct r0] hdr by auto
  then show ?thesis
    using set_headers_client_values [of c ?ct req' r0] s by simp
qed

theorem Run_outgoing_headers_witness:
  "reaches_transport example_env (example_client 200 ''{data:{x:1}}'' []) Live query_only
   \<and> ''t1'' \<in> set (the (Headers (hd (sent (Run example_env (example_client 200 ''{data:{x:1}}'' []) Live
                                             query_only ''old''))) ''X-Trace''))
   \<and> hd (the (Headers (hd (sent (Run example_env (example_client 200 ''{data:{x:1}}'' []) Live
                                     query_only ''old''))) ''Content-Type''))
       = ''application/json; charset=utf-8''
   \<and> reaches_transport example_env (example_client 200 ''{data:{x:1}}'' [UseMultipartForm]) Live
        one_file_traced
   \<and> ''t1'' \<in> set (the (Headers (hd (sent (Run example_env
         (example_client 200 ''{data:{x:1}}'' [UseMultipartForm]) Live one_file_traced ''old'')))
         ''X-Trace''))
   \<and> hd (the (Headers (hd (sent (Run example_env
         (example_client 200 ''{data:{x:1}}'' [UseMultipartForm]) Live one_file_traced ''old'')))
         ''Content-Type''))
       = ''multipart/form-data; boundary=b0''
   \<and> reaches_transport example_env (example_client 200 ''{data:{x:1}}'' [UseMultipartRequestSpec]) Live
        two_files_traced
   \<and> ''t1'' \<in> set (the (Headers (hd (sent (Run example_env
         (example_client 200 ''{data:{x:1}}'' [UseMultipartRequestSpec]) Live two_files_traced ''old'')))
         ''X-Trace''))
   \<and> hd (the (Headers (hd (sent (Run example_env
         (example_client 200 ''{data:{x:1}}'' [UseMultipartRequestSpec]) Live two_files_traced ''old'')))
         ''Accept''))
       = ''application/json; charset=utf-8''"
proof -
  have x: "CanonicalMIMEHeaderKey ''x-trace'' = ''X-Trace''"
    by code_simp
  have ct: "Writer_FormDataContentType (multipart_NewWriter ''b0'') = ''multipart/form-data; boundary=b0''"
    by code_simp

  let ?c1 = "example_client 200 ''{data:{x:1}}'' []"
  have h1: "reaches_transport example_env ?c1 Live query_only"
    by (simp add: reach_defs example_defs)
  have k1: "Header query_only = [(''x-trace'', [''t1''])]"
    and s1: "client_content_type example_env (spec_strategy ?c1 query_only)
              = ''application/json; charset=utf-8''"
    by (simp_all add: example_defs spec_strategy_def client_content_type_def)
  from Run_outgoing_headers [OF h1, of "''old''"] k1 s1 x
  have a1: "''t1'' \<in> set (the (Headers (hd (sent (Run example_env ?c1 Live query_only ''old''))) ''X-Trace''))
    \<and> hd (the (Headers (hd (sent (Run example_env ?c1 Live query_only ''old''))) ''Content-Type''))
       = ''application/json; charset=utf-8''"
    by auto

  let ?c2 = "example_client 200 ''{data:{x:1}}'' [UseMultipartForm]"
  have h2: "reaches_transport example_env ?c2 Live one_file_traced"
    by (simp add: reach_defs example_defs)
  have k2: "Header one_file_traced = [(''x-trace'', [''t1''])]"
    and s2: "client_content_type example_env (spec_strategy ?c2 one_file_traced)
              = ''multipart/form-data; boundary=b0''"
    by (simp_all add: example_defs spec_strategy_def client_content_type_def ct)
  from Run_outgoing_headers [OF h2, of "''old''"] k2 s2 x
  have a2: "''t1'' \<in> set (the (Headers (hd (sent (Run example_env ?c2 Live one_file_traced ''old'')))
                                ''X-Trace''))
    \<and> hd (the (Headers (hd (sent (Run example_env ?c2 Live one_file_traced ''old''))) ''Content-Type''))
       = ''multipart/form-data; boundary=b0''"
    by auto

  let ?c3 = "example_client 200 ''{data:{x:1}}'' [UseMultipartRequestSpec]"
  have h3: "reaches_transport example_env ?c3 Live two_files_traced"
    by (simp add: reach_defs example_defs)
  have k3: "Header two_files_traced = [(''x-trace'', [''t1''])]"
    by (simp add: example_defs)
  from Run_outgoing_headers [OF h3, of "''old''"] k3 x
  have a3: "''t1'' \<in> set (the (Headers (hd (sent (Run example_env ?c3 Live two_files_traced ''old'')))
                                ''X-Trace''))
    \<and> hd (the (Headers (hd (sent (Run example_env ?c3 Live two_files_traced ''old''))) ''Accept''))
       = ''application/json; charset=utf-8''"
    by auto

  from h1 a1 h2 a2 h3 a3 show ?thesis by blast
qed

subsection \<open>The request after the call\<close>

text \<open>
  C9. After every call of \<open>Run\<close>, whatever it returned, the query, the variables, the
  files and the headers of the Request are as before: the Request differs from the
  caller's at most in its two staging fields \<open>body\<close> and \<open>contentType\<close>, and not at all
  when neither multipart strategy is the one selected.
\<close>

theorem Run_request_frame:
  "q (req_after (Run E c ctx req resp)) = q req
   \<and> vars (req_after (Run E c ctx req resp)) = vars req
   \<and> files (req_after (Run E c ctx req resp)) = files req
   \<and> Header (req_after (Run E c ctx req resp)) = Header req
   \<and> (\<exists>b ct. req_after (Run E c ctx req resp) = req\<lparr>body := b, contentType := ct\<rparr>)
   \<and> (\<not> useMultipartForm c \<and> \<not> (useMultipartRequestSpec c \<and> files req \<noteq> [])
        \<longrightarrow> req_after (Run E c ctx req resp) = req)"
proof -
  have plain: "\<not> useMultipartForm c \<and> \<not> (useMultipartRequestSpec c \<and> files req \<noteq> [])
      \<Longrightarrow> spec_strategy c req = PlainJSON"
    by (simp add: spec_strategy_def)
  obtain req' where after: "req_after (Run E c ctx req resp) = req'"
    and st: "\<exists>b ct. req' = req\<lparr>body := b, contentType := ct\<rparr>"
    and pl: "spec_strategy c req = PlainJSON \<longrightarrow> req' = req"
    by (cases rule: Run_cases [of E c ctx req resp])
       (simp_all add: req_after_failed req_after_exchange)
  from st obtain b ct where "req' = req\<lparr>body := b, contentType := ct\<rparr>" by blast
  then show ?thesis using after pl plain by auto
qed

theorem Run_request_frame_witness:
  "\<not> useMultipartForm (example_client 200 ''{data:{x:1}}'' [])
   \<and> \<not> useMultipartRequestSpec (example_client 200 ''{data:{x:1}}'' [])
   \<and> req_after (Run example_env (example_client 200 ''{data:{x:1}}'' []) Live query_only ''old'')
       = query_only
   \<and> files (req_after (Run example_env (example_client 200 ''{data:{x:1}}'' [UseMultipartForm]) Live
               one_file ''old'')) = files one_file"
proof -
  let ?c = "example_client 200 ''{data:{x:1}}'' []"
  have h: "\<not> useMultipartForm ?c \<and> \<not> useMultipartRequestSpec ?c" by (simp add: example_defs)
  from Run_request_frame [of example_env ?c Live query_only "''old''"]
       Run_request_frame [of example_env "example_client 200 ''{data:{x:1}}'' [UseMultipartForm]" Live
         one_file "''old''"] h
  show ?thesis by simp
qed

subsection \<open>The empty error list\<close>

text \<open>
  C10. The text of the empty error list is \<open>no error\<close>; and an error list that \<open>Run\<close>
  returns as its error is never empty.
\<close>

theorem Errors_Error_empty:
  "Errors_Error ([] :: 'v Errors) = ''no error''
   \<and> (outcome (Run E c ctx req resp) = Returns (Some (GraphQLErrors l)) \<longrightarrow> l \<noteq> [])"
proof
  show "Errors_Error ([] :: 'v Errors) = ''no error''"
    by (simp add: Errors_Error_def)
  show "outcome (Run E c ctx req resp) = Returns (Some (GraphQLErrors l)) \<longrightarrow> l \<noteq> []"
    using Run_shape [of E c ctx req resp]
    by (auto simp: outcome_failed dest: exchange_errors_nonempty)
qed

theorem Errors_Error_empty_witness:
  "outcome (Run example_env (example_client 200 ''{data:{x:1},errors:[{message:bad}]}'' []) Live
             query_only ''old'') = Returns (Some (GraphQLErrors [bad]))
   \<and> [bad] \<noteq> []
   \<and> Errors_Error ([] :: nat Errors) = ''no error''"
proof -
  have h: "outcome (Run example_env (example_client 200 ''{data:{x:1},errors:[{message:bad}]}'' []) Live
             query_only ''old'') = Returns (Some (GraphQLErrors [bad]))"
    by (simp add: run_defs example_defs)
  from Errors_Error_empty [of example_env "example_client 200 ''{data:{x:1},errors:[{message:bad}]}'' []"
      Live query_only "''old''" "[bad]"] h
  show ?thesis by simp
qed

end
